theory Spec2Isabelle
  imports Main "HOL-Library.AList"
begin

section \<open>JavaScript primitives used by the services\<close>

text \<open>A thrown \<open>Error\<close> with its message.\<close>

datatype err = Error string

fun message :: "err \<Rightarrow> string" where
  "message (Error m) = m"


text \<open>\<open>String.prototype.includes\<close>, \<open>startsWith\<close> and \<open>endsWith\<close>.\<close>

definition js_startsWith :: "string \<Rightarrow> string \<Rightarrow> bool" where
  "js_startsWith s p = (take (length p) s = p)"

definition js_endsWith :: "string \<Rightarrow> string \<Rightarrow> bool" where
  "js_endsWith s p = (length p \<le> length s \<and> drop (length s - length p) s = p)"

fun js_includes :: "string \<Rightarrow> string \<Rightarrow> bool" where
  "js_includes [] p = (p = [])"
| "js_includes (c # cs) p = (take (length p) (c # cs) = p \<or> js_includes cs p)"

text \<open>A JavaScript string is truthy when it is not empty; an optional string is truthy
  when it is present and not empty.\<close>

definition truthy_str :: "string option \<Rightarrow> bool" where
  "truthy_str s = (case s of None \<Rightarrow> False | Some v \<Rightarrow> v \<noteq> [])"

text \<open>
  \<open>parseInt(s)\<close> without a radix: leading white space is skipped, a sign is read, a
  \<open>0x\<close> prefix selects base 16, and the longest run of digits is converted.  \<open>None\<close> is
  \<open>NaN\<close>.  Integers are exact here; the source's numbers are doubles, which agree with
  them below \<open>2^53\<close>.
\<close>

definition is_space :: "char \<Rightarrow> bool" where
  "is_space c = (c \<in> set [CHR '' '', CHR 0x09, CHR 0x0A, CHR 0x0B, CHR 0x0C, CHR 0x0D])"

definition digit_value :: "nat \<Rightarrow> char \<Rightarrow> nat option" where
  "digit_value radix c =
     (case map_of
        [(CHR ''0'', 0), (CHR ''1'', 1), (CHR ''2'', 2), (CHR ''3'', 3), (CHR ''4'', 4),
         (CHR ''5'', 5), (CHR ''6'', 6), (CHR ''7'', 7), (CHR ''8'', 8), (CHR ''9'', 9),
         (CHR ''a'', 10), (CHR ''b'', 11), (CHR ''c'', 12), (CHR ''d'', 13), (CHR ''e'', 14),
         (CHR ''f'', 15), (CHR ''A'', 10), (CHR ''B'', 11), (CHR ''C'', 12), (CHR ''D'', 13),
         (CHR ''E'', 14), (CHR ''F'', 15)] c of
        None \<Rightarrow> None
      | Some d \<Rightarrow> if d < radix then Some d else None)"

fun parse_digits :: "nat \<Rightarrow> string \<Rightarrow> nat option \<Rightarrow> nat option" where
  "parse_digits radix [] acc = acc"
| "parse_digits radix (c # cs) acc =
     (case digit_value radix c of
        None \<Rightarrow> acc
      | Some d \<Rightarrow>
          parse_digits radix cs (Some (case acc of None \<Rightarrow> d | Some a \<Rightarrow> a * radix + d)))"

definition js_parseInt :: "string \<Rightarrow> int option" where
  "js_parseInt s =
     (let s1 = dropWhile is_space s;
          neg = (take 1 s1 = ''-'');
          s2 = (if take 1 s1 = ''-'' \<or> take 1 s1 = ''+'' then drop 1 s1 else s1);
          hex = (take 2 s2 = ''0x'' \<or> take 2 s2 = ''0X'');
          digits = (if hex then parse_digits 16 (drop 2 s2) None else parse_digits 10 s2 None)
      in case digits of
           None \<Rightarrow> None
         | Some n \<Rightarrow> Some (if neg then - int n else int n))"

text \<open>A number is truthy when it is neither \<open>NaN\<close> nor zero.\<close>

definition truthy_num :: "int option \<Rightarrow> bool" where
  "truthy_num n = (case n of None \<Rightarrow> False | Some v \<Rightarrow> v \<noteq> 0)"

text \<open>Decimal rendering of integers, as template literals do.\<close>

definition digit_char :: "nat \<Rightarrow> char" where
  "digit_char d = ''0123456789'' ! (d mod 10)"

fun show_nat :: "nat \<Rightarrow> string" where
  "show_nat n = (if n < 10 then [digit_char n] else show_nat (n div 10) @ [digit_char n])"

declare show_nat.simps [simp del]

definition show_int :: "int \<Rightarrow> string" where
  "show_int i = (if i < 0 then ''-'' @ show_nat (nat (- i)) else show_nat (nat i))"

section \<open>GitOps descriptor and its image patch\<close>

text \<open>
  The kustomization descriptor is what \<open>yaml.load\<close> returns: a mapping from keys to YAML
  values, with the keys in the order the object enumerates them.  Assigning a property
  overwrites it in place when the key exists and appends it otherwise, which is
  \<open>AList.update\<close>.  The loaded document is taken to be a mapping whose values are trees: a
  document that is not a mapping is an error of \<open>yaml_load\<close> in the host, and nodes shared
  through YAML aliases are not modelled.
\<close>

datatype yaml =
    Y_null
  | Y_bool bool
  | Y_num int
  | Y_str string
  | Y_seq "yaml list"
  | Y_map "(string \<times> yaml) list"

type_synonym descriptor = "(string \<times> yaml) list"

fun truthy :: "yaml \<Rightarrow> bool" where
  "truthy Y_null = False"
| "truthy (Y_bool b) = b"
| "truthy (Y_num n) = (n \<noteq> 0)"
| "truthy (Y_str s) = (s \<noteq> [])"
| "truthy (Y_seq xs) = True"
| "truthy (Y_map m) = True"

text \<open>The predicate of \<open>images.find\<close>: \<open>img.name === `${endpoint}/${repository}` ||
  img.name === repository\<close>.  Only a mapping has a \<open>name\<close>; reading it from \<open>null\<close> throws,
  which \<open>find_image\<close> handles before it asks.\<close>

definition image_matches :: "string \<Rightarrow> string \<Rightarrow> yaml \<Rightarrow> bool" where
  "image_matches endpoint repository img =
     (case img of
        Y_map m \<Rightarrow>
          map_of m ''name'' = Some (Y_str (endpoint @ ''/'' @ repository)) \<or>
          map_of m ''name'' = Some (Y_str repository)
      | _ \<Rightarrow> False)"

fun find_image :: "string \<Rightarrow> string \<Rightarrow> yaml list \<Rightarrow> err + nat option" where
  "find_image endpoint repository [] = Inr None"
| "find_image endpoint repository (img # imgs) =
     (if img = Y_null then Inl (Error ''Cannot read properties of null (reading name)'')
      else if image_matches endpoint repository img then Inr (Some 0)
      else (case find_image endpoint repository imgs of
              Inl e \<Rightarrow> Inl e
            | Inr None \<Rightarrow> Inr None
            | Inr (Some i) \<Rightarrow> Inr (Some (Suc i))))"

text \<open>\<open>imageEntry.newTag = imageTag\<close>.\<close>

fun set_newTag :: "string \<Rightarrow> yaml \<Rightarrow> yaml" where
  "set_newTag tag (Y_map m) = Y_map (AList.update ''newTag'' (Y_str tag) m)"
| "set_newTag tag v = v"

text \<open>The patch of an existing descriptor (the \<open>else\<close> branch that updates
  \<open>kustomization.yaml\<close>): default \<open>images\<close> to the empty list when it is falsy, find the
  entry, overwrite its tag or push a new entry.  Calling \<open>find\<close> on a value that is not a
  list throws.\<close>

definition patch_descriptor ::
  "string \<Rightarrow> string \<Rightarrow> string \<Rightarrow> descriptor \<Rightarrow> err + descriptor" where
  "patch_descriptor endpoint repository imageTag kustomization =
     (let k1 = (if (case map_of kustomization ''images'' of None \<Rightarrow> False | Some v \<Rightarrow> truthy v)
                then kustomization
                else AList.update ''images'' (Y_seq []) kustomization)
      in case map_of k1 ''images'' of
           Some (Y_seq imgs) \<Rightarrow>
             (case find_image endpoint repository imgs of
                Inl e \<Rightarrow> Inl e
              | Inr (Some i) \<Rightarrow>
                  Inr (AList.update ''images''
                         (Y_seq (imgs[i := set_newTag imageTag (imgs ! i)])) k1)
              | Inr None \<Rightarrow>
                  Inr (AList.update ''images''
                         (Y_seq (imgs @ [Y_map [(''name'', Y_str (endpoint @ ''/'' @ repository)),
                                                (''newTag'', Y_str imageTag)]])) k1))
         | _ \<Rightarrow> Inl (Error ''kustomization.images.find is not a function''))"

text \<open>The descriptor synthesized when no candidate path exists.\<close>

definition new_descriptor :: "string \<Rightarrow> string \<Rightarrow> string \<Rightarrow> string \<Rightarrow> descriptor" where
  "new_descriptor namespace endpoint repository imageTag =
     [(''apiVersion'', Y_str ''kustomize.config.k8s.io/v1beta1''),
      (''kind'', Y_str ''Kustomization''),
      (''namespace'', Y_str namespace),
      (''resources'', Y_seq [Y_str ''email-service.yaml'', Y_str ''email-configmap.yaml'',
                            Y_str ''email-hpa.yaml'', Y_str ''email-network-policy.yaml'']),
      (''images'', Y_seq [Y_map [(''name'', Y_str (endpoint @ ''/'' @ repository)),
                                 (''newTag'', Y_str imageTag)]])]"

section \<open>External collaborators, outcomes and traces\<close>

text \<open>
  Every component of the deployment tool is a sequence of calls to external collaborators:
  subprocesses started with \<open>execSync\<close>, object-storage and CDN requests, file writes and
  timers.  A call is recorded with the collaborator it drives and, for a subprocess, the
  command line exactly as the source builds it.  The pipeline of the command-line tool
  also calls the Builder, the Publisher and the notification webhook; these calls are
  recorded as such.
\<close>

datatype collaborator =
    Hook_subprocess
  | Build_tool
  | Container_engine
  | Cluster_cli
  | Version_control
  | Package_registry
  | Local_shell

datatype webhook_event =
    DeployStart | DeploySuccess | DeployError
  | BuildStart | BuildSuccess | BuildSkipped
  | UploadStart | UploadSuccess | UploadSkipped
  | PodsRestarting | PodsReady
  | WebDeploying | WebDeployed
  | Cleanup | DryRun

datatype call =
    Exec collaborator string
  | Put_object string string
  | Create_invalidation string "string list"
  | Write_file string
  | Write_descriptor string descriptor
  | Unlink_file string
  | Make_temp_dir string
  | Remove_dir string
  | Sleep nat
  | Post_webhook string webhook_event
  | Invoke_builder bool
  | Invoke_builder_cleanup
  | Invoke_publisher bool

text \<open>
  The outcome of a call is decided by the world: it fails with a message (the call throws)
  or it returns its output.  The world sees the calls made so far, so the same command may
  succeed once and fail later.
\<close>

datatype outcome = Fails string | Returns string

type_synonym world = "call list \<Rightarrow> call \<Rightarrow> outcome"

text \<open>
  A computation takes the trace of calls made so far and returns its result (\<open>Inl\<close> for a
  thrown error) with the extended trace.
\<close>

type_synonym 'a act = "call list \<Rightarrow> (err + 'a) \<times> call list"

definition succeed :: "'a \<Rightarrow> 'a act" where
  "succeed x tr = (Inr x, tr)"

definition throw :: "err \<Rightarrow> 'a act" where
  "throw e tr = (Inl e, tr)"

definition and_then :: "'a act \<Rightarrow> ('a \<Rightarrow> 'b act) \<Rightarrow> 'b act" where
  "and_then m f tr = (case m tr of (Inl e, tr') \<Rightarrow> (Inl e, tr') | (Inr x, tr') \<Rightarrow> f x tr')"

definition try_catch :: "'a act \<Rightarrow> (err \<Rightarrow> 'a act) \<Rightarrow> 'a act" where
  "try_catch m h tr = (case m tr of (Inl e, tr') \<Rightarrow> h e tr' | (Inr x, tr') \<Rightarrow> (Inr x, tr'))"

definition exec :: "world \<Rightarrow> call \<Rightarrow> string act" where
  "exec w c tr = (case w tr c of Fails m \<Rightarrow> (Inl (Error m), tr @ [c])
                               | Returns out \<Rightarrow> (Inr out, tr @ [c]))"

text \<open>A timer: \<open>await new Promise(resolve => setTimeout(resolve, d))\<close>.\<close>

definition pause :: "nat \<Rightarrow> unit act" where
  "pause d tr = (Inr (), tr @ [Sleep d])"

text \<open>A straight-line block of calls whose outputs are not used: it stops at the first
  call that throws.\<close>

fun exec_all :: "world \<Rightarrow> call list \<Rightarrow> unit act" where
  "exec_all w [] tr = (Inr (), tr)"
| "exec_all w (c # cs) tr =
     (case w tr c of Fails m \<Rightarrow> (Inl (Error m), tr @ [c])
                   | Returns out \<Rightarrow> exec_all w cs (tr @ [c]))"

text \<open>A \<open>try { ... } finally { ... }\<close> block: the cleanup runs after the body however it
  ended, and an error of the cleanup replaces the body's result.\<close>

definition finally_do :: "'a act \<Rightarrow> unit act \<Rightarrow> 'a act" where
  "finally_do m cleanup tr =
     (case m tr of
        (r, tr') \<Rightarrow>
          (case cleanup tr' of (Inl e, tr'') \<Rightarrow> (Inl e, tr'') | (Inr u, tr'') \<Rightarrow> (r, tr'')))"

text \<open>The double and the single quote, for command lines that contain them.\<close>

definition dq :: string where
  "dq = [CHR 0x22]"

definition sq :: string where
  "sq = [CHR 0x27]"

section \<open>Hook runner (HooksService.executeHooks)\<close>

record hook =
  hook_name :: string
  hook_description :: "string option"
  hook_command :: string

definition hook_call :: "hook \<Rightarrow> call" where
  "hook_call h = Exec Hook_subprocess (hook_command h)"

text \<open>The \<open>for (const hook of hooks)\<close> loop: \<open>execSync(hook.command)\<close> in a try block whose
  handler throws \<open>Hook <name> failed: <message>\<close>.\<close>

fun run_hooks :: "world \<Rightarrow> hook list \<Rightarrow> unit act" where
  "run_hooks w [] tr = (Inr (), tr)"
| "run_hooks w (h # hs) tr =
     (case w tr (hook_call h) of
        Fails m \<Rightarrow>
          (Inl (Error (''Hook '' @ hook_name h @ '' failed: '' @ m)), tr @ [hook_call h])
      | Returns out \<Rightarrow> run_hooks w hs (tr @ [hook_call h]))"

definition executeHooks :: "world \<Rightarrow> hook list \<Rightarrow> string \<Rightarrow> unit act" where
  "executeHooks w hooks phase = (if hooks = [] then succeed () else run_hooks w hooks)"

text \<open>The guard \<open>if (hooks?.phase) await executeHooks(hooks.phase, label)\<close> of the callers.\<close>

definition run_phase :: "world \<Rightarrow> hook list option \<Rightarrow> string \<Rightarrow> unit act" where
  "run_phase w hs phase = (case hs of None \<Rightarrow> succeed () | Some l \<Rightarrow> executeHooks w l phase)"

section \<open>The host\<close>

text \<open>
  What the process reads without changing anything, and the library functions the
  services call but do not define: the working directory, the clock, file-system queries,
  environment variables, \<open>path.join\<close>, \<open>path.resolve\<close>, \<open>path.dirname\<close>, \<open>yaml.load\<close> and
  \<open>JSON.parse\<close>.  Durations are differences of two clock readings and are read from the
  host as well.
\<close>

datatype health_data = Not_json | Json_null | Json_status "string option"

datatype package_json = Bad_package | Package "string option" "string option"

record host =
  cwd :: string
  now :: nat
  iso_time :: string
  build_ms :: nat
  deploy_ms :: nat
  file_exists :: "string \<Rightarrow> bool"
  read_file :: "string \<Rightarrow> outcome"
  glob_files :: "string \<Rightarrow> string list option"
  env_var :: "string \<Rightarrow> string option"
  path_join :: "string list \<Rightarrow> string"
  path_resolve :: "string \<Rightarrow> string"
  path_dirname :: "string \<Rightarrow> string"
  yaml_load :: "string \<Rightarrow> err + descriptor"
  json_parse_health :: "string \<Rightarrow> health_data"
  json_parse_package :: "string \<Rightarrow> package_json"

section \<open>Configuration (config/schema)\<close>

record service_info =
  svc_name :: string
  svc_product :: string

record hooks =
  pre_build :: "hook list option"
  post_build :: "hook list option"
  pre_deploy :: "hook list option"
  post_deploy :: "hook list option"

record s3_config =
  bucket :: string

record cloudfront_config =
  distributionId :: "string option"
  cf_paths :: "string list"

record minio_check =
  mc_enabled :: "bool option"
  minFiles :: "int option"

record verification_config =
  v_enabled :: "bool option"
  minioCheck :: "minio_check option"

record web_config =
  buildCommand :: "string option"
  buildDir :: string
  web_path :: "string option"
  cloudfront :: "cloudfront_config option"
  verification :: "verification_config option"

record registry_config =
  endpoint :: string
  repository :: string
  nodePort :: "int option"
  reg_namespace :: string
  username :: "string option"
  password :: "string option"

record kubernetes_config =
  namespace :: string
  replicas :: nat
  useExistingManifests :: bool
  gitOpsPath :: "string option"
  deploymentTimeout :: "int option"
  fluxNamespace :: string

record container_config =
  registry :: registry_config
  kubernetes :: kubernetes_config
  gitops :: "bool option"

record npm_config =
  npm_registry :: string
  npm_access :: string
  npm_tag :: string
  npm_dryRun :: bool
  npm_otp :: "string option"
  npm_token :: "string option"

record dockerhub_config =
  dh_repository :: string
  dh_tag :: string
  dh_tags :: "string list option"
  dh_username :: "string option"
  dh_password :: "string option"
  dh_dockerfile :: string
  dh_buildArgs :: "(string \<times> string) list option"
  dh_platform :: "string list"

record service_deployment_config =
  sd_container :: container_config

record deployment =
  dtype :: string
  web :: "web_config option"
  container :: "container_config option"
  npm :: "npm_config option"
  dockerhub :: "dockerhub_config option"
  service :: "service_deployment_config option"

record global_config =
  projectRoot :: "string option"
  gitOpsBasePath :: "string option"

record build_config =
  dockerfile :: string
  cleanupContainer :: bool

record notification_config =
  webhook :: "string option"
  n_enabled :: "bool option"
  n_events :: "(webhook_event \<Rightarrow> bool option) option"

record deployment_config =
  environment :: string
  dc_build :: "build_config option"
  dc_global :: "global_config option"
  dc_hooks :: "hooks option"
  storage :: s3_config
  dc_deployment :: deployment
  notifications :: "notification_config option"

record full_config =
  fc_service :: service_info
  fc_global :: "global_config option"
  fc_build :: "build_config option"
  deployments :: "deployment_config list"

text \<open>\<open>x !== false\<close> on an optional flag.\<close>

definition not_false :: "bool option \<Rightarrow> bool" where
  "not_false b = (b \<noteq> Some False)"

text \<open>\<open>s || d\<close> on an optional string.\<close>

definition str_or :: "string option \<Rightarrow> string \<Rightarrow> string" where
  "str_or s d = (case s of None \<Rightarrow> d | Some v \<Rightarrow> if v = [] then d else v)"

text \<open>\<open>hooks?.pre_deploy\<close> and its siblings.\<close>

definition phase_of :: "(hooks \<Rightarrow> hook list option) \<Rightarrow> hooks option \<Rightarrow> hook list option" where
  "phase_of sel hs = (case hs of None \<Rightarrow> None | Some h \<Rightarrow> sel h)"

definition js_trim :: "string \<Rightarrow> string" where
  "js_trim s = rev (dropWhile is_space (rev (dropWhile is_space s)))"

text \<open>\<open>deploymentConfig?.build?.dockerfile || 'Dockerfile'\<close>.\<close>

definition dockerfile_of :: "deployment_config option \<Rightarrow> string" where
  "dockerfile_of deploymentConfig =
     (case deploymentConfig of
        None \<Rightarrow> ''Dockerfile''
      | Some dc \<Rightarrow>
          (case dc_build dc of
             None \<Rightarrow> ''Dockerfile''
           | Some b \<Rightarrow> str_or (Some (dockerfile b)) ''Dockerfile''))"

section \<open>Static-site strategy (WebDeploymentService)\<close>

record web_result =
  deployedFiles :: nat
  invalidationId :: "string option"
  buildTime :: "nat option"
  deployTime :: nat

text \<open>\<open>file.replace(/\\/g, '/')\<close> and the key under the optional path prefix.\<close>

definition s3_key :: "string option \<Rightarrow> string \<Rightarrow> string" where
  "s3_key prefix file =
     (let normalizedFile = map (\<lambda>c. if c = CHR 0x5C then CHR ''/'' else c) file
      in case prefix of
           None \<Rightarrow> normalizedFile
         | Some p \<Rightarrow> if p = [] then normalizedFile else p @ ''/'' @ normalizedFile)"

text \<open>Step 3, the loop over the files: read the file and put the object unless this is a
  dry run; count the file either way.\<close>

fun upload_files ::
  "world \<Rightarrow> host \<Rightarrow> bool \<Rightarrow> string \<Rightarrow> string option \<Rightarrow> string \<Rightarrow> string list \<Rightarrow> nat \<Rightarrow> nat act"
where
  "upload_files w h dryRun bkt prefix dir [] n tr = (Inr n, tr)"
| "upload_files w h dryRun bkt prefix dir (file # files) n tr =
     (if dryRun then upload_files w h dryRun bkt prefix dir files (Suc n) tr
      else
        (case read_file h (path_join h [dir, file]) of
           Fails m \<Rightarrow> (Inl (Error m), tr)
         | Returns content \<Rightarrow>
             (case w tr (Put_object bkt (s3_key prefix file)) of
                Fails m \<Rightarrow> (Inl (Error m), tr @ [Put_object bkt (s3_key prefix file)])
              | Returns out \<Rightarrow>
                  upload_files w h dryRun bkt prefix dir files (Suc n)
                    (tr @ [Put_object bkt (s3_key prefix file)]))))"

text \<open>Step 1: the build command.\<close>

definition web_build :: "world \<Rightarrow> host \<Rightarrow> web_config \<Rightarrow> bool \<Rightarrow> nat option act" where
  "web_build w h webConfig dryRun =
     (case buildCommand webConfig of
        None \<Rightarrow> succeed None
      | Some cmd \<Rightarrow>
          if cmd = [] then succeed None
          else if \<not> dryRun then
            try_catch
              (and_then (exec w (Exec Build_tool cmd)) (\<lambda>_. succeed (Some (build_ms h))))
              (\<lambda>e. throw (Error (''Build failed: Error: '' @ message e)))
          else succeed (Some 0))"

text \<open>Step 2: the files of the build directory, or three mock files in a dry run.\<close>

definition web_scan :: "host \<Rightarrow> web_config \<Rightarrow> bool \<Rightarrow> string list act" where
  "web_scan h webConfig dryRun =
     (if \<not> dryRun then
        (case glob_files h (path_resolve h (buildDir webConfig)) of
           None \<Rightarrow>
             throw (Error (''Build directory not found: '' @ path_resolve h (buildDir webConfig)))
         | Some files \<Rightarrow> succeed files)
      else succeed [''index.html'', ''assets/app.js'', ''css/style.css''])"

text \<open>Step 4: the CDN invalidation; its failure is logged and swallowed.\<close>

definition web_invalidate :: "world \<Rightarrow> web_config \<Rightarrow> bool \<Rightarrow> string option act" where
  "web_invalidate w webConfig dryRun =
     (case cloudfront webConfig of
        None \<Rightarrow> succeed None
      | Some cf \<Rightarrow>
          (case distributionId cf of
             None \<Rightarrow> succeed None
           | Some dist \<Rightarrow>
               if dist = [] then succeed None
               else if \<not> dryRun then
                 try_catch
                   (and_then (exec w (Create_invalidation dist (cf_paths cf)))
                      (\<lambda>out. succeed (Some out)))
                   (\<lambda>e. succeed None)
               else succeed (Some ''dry-run-invalidation-id'')))"

text \<open>Step 5: the verification.  The enabled flags count as on unless they are \<open>false\<close>;
  \<open>minFiles || 5\<close> is 5 when the minimum is absent or zero.  The endpoint checks only
  log.\<close>

definition verification_enabled :: "web_config \<Rightarrow> bool" where
  "verification_enabled webConfig =
     (case verification webConfig of None \<Rightarrow> True | Some v \<Rightarrow> not_false (v_enabled v))"

definition minio_check_enabled :: "web_config \<Rightarrow> bool" where
  "minio_check_enabled webConfig =
     (case verification webConfig of
        None \<Rightarrow> True
      | Some v \<Rightarrow> (case minioCheck v of None \<Rightarrow> True | Some mc \<Rightarrow> not_false (mc_enabled mc)))"

definition min_files :: "web_config \<Rightarrow> int" where
  "min_files webConfig =
     (case verification webConfig of
        None \<Rightarrow> 5
      | Some v \<Rightarrow>
          (case minioCheck v of
             None \<Rightarrow> 5
           | Some mc \<Rightarrow> (case minFiles mc of None \<Rightarrow> 5 | Some n \<Rightarrow> if n = 0 then 5 else n)))"

definition web_verify :: "web_config \<Rightarrow> bool \<Rightarrow> nat \<Rightarrow> unit act" where
  "web_verify webConfig dryRun deployed =
     (if verification_enabled webConfig \<and> \<not> dryRun then
        (if minio_check_enabled webConfig then
           (if int deployed < min_files webConfig then
              throw (Error (''Verification failed: Only '' @ show_nat deployed @
                            '' files deployed, expected at least '' @
                            show_int (min_files webConfig)))
            else succeed ())
         else succeed ())
      else succeed ())"

definition WebDeploymentService_deploy ::
  "world \<Rightarrow> host \<Rightarrow> service_info \<Rightarrow> s3_config \<Rightarrow> web_config \<Rightarrow> bool \<Rightarrow> web_result act" where
  "WebDeploymentService_deploy w h serviceInfo s3Config webConfig dryRun =
     and_then (web_build w h webConfig dryRun) (\<lambda>build_time.
     and_then (web_scan h webConfig dryRun) (\<lambda>files.
     and_then (upload_files w h dryRun (bucket s3Config) (web_path webConfig)
                 (path_resolve h (buildDir webConfig)) files 0) (\<lambda>deployed.
     and_then (web_invalidate w webConfig dryRun) (\<lambda>invalidation.
     and_then (web_verify webConfig dryRun deployed) (\<lambda>_.
     succeed \<lparr> deployedFiles = deployed, invalidationId = invalidation,
               buildTime = build_time, deployTime = deploy_ms h \<rparr>)))))"

section \<open>Managed-runtime strategy (ServiceDeploymentService)\<close>

record service_result =
  sr_imageName :: string
  sr_imageTag :: string
  migrationCompleted :: bool
  deploymentRestarted :: bool
  healthCheckPassed :: bool
  sr_podCount :: int
  sr_namespace :: string
  sr_gitHash :: "string option"
  sr_buildTimestamp :: "string option"

text \<open>\<open>RustBuildService.buildDockerImage\<close> with the two build arguments the service
  passes.\<close>

definition buildDockerImage ::
  "world \<Rightarrow> string \<Rightarrow> string \<Rightarrow> string \<Rightarrow> string \<Rightarrow> string \<Rightarrow> string act" where
  "buildDockerImage w serviceName tag dockerfile_path gitSha buildTimestamp =
     exec w (Exec Container_engine
       (''docker build -f '' @ dockerfile_path @ '' '' @
        ''--build-arg GIT_SHA='' @ gitSha @ '' --build-arg BUILD_TIMESTAMP='' @ buildTimestamp @
        '' -t '' @ serviceName @ '':'' @ tag @ '' .''))"

definition rollout_undo :: "string \<Rightarrow> string \<Rightarrow> call" where
  "rollout_undo serviceName ns =
     Exec Cluster_cli (''kubectl rollout undo deployment/'' @ serviceName @ '' -n '' @ ns)"

definition get_pod_call :: "string \<Rightarrow> string \<Rightarrow> call" where
  "get_pod_call serviceName ns =
     Exec Cluster_cli (''kubectl get pod -l app='' @ serviceName @ '' -n '' @ ns @
                       '' -o jsonpath='{.items[0].metadata.name}'' @ sq)"

definition health_call :: "string \<Rightarrow> string \<Rightarrow> call" where
  "health_call podName ns =
     Exec Cluster_cli (''kubectl exec '' @ podName @ '' -n '' @ ns @
                       '' -- curl -s http://localhost:8081/health || echo '' @ dq @ ''{}'' @ dq)"

definition maxRetries :: nat where
  "maxRetries = 30"

definition retryDelay :: nat where
  "retryDelay = 10000"

text \<open>
  \<open>verifyHealth\<close>: the body of the loop \<open>for (let i = 0; i < maxRetries; i++)\<close>.  An
  attempt asks for a pod, probes its health endpoint and parses the answer.  It ends the
  function with \<open>true\<close> when the status is \<open>healthy\<close>; every other way an attempt can end
  (a command throws, no pod, an answer that is not JSON, a \<open>null\<close> answer, another status)
  sleeps \<open>retryDelay\<close> and leaves the loop running.  The result is whether the attempt
  saw a healthy service, with the extended trace.
\<close>

definition health_attempt ::
  "world \<Rightarrow> host \<Rightarrow> string \<Rightarrow> string \<Rightarrow> call list \<Rightarrow> bool \<times> call list" where
  "health_attempt w h serviceName ns tr =
     (case w tr (get_pod_call serviceName ns) of
        Fails m \<Rightarrow> (False, tr @ [get_pod_call serviceName ns, Sleep retryDelay])
      | Returns out \<Rightarrow>
          if js_trim out = [] then
            (False, tr @ [get_pod_call serviceName ns, Sleep retryDelay])
          else
            (case w (tr @ [get_pod_call serviceName ns]) (health_call (js_trim out) ns) of
               Fails m \<Rightarrow>
                 (False, tr @ [get_pod_call serviceName ns, health_call (js_trim out) ns,
                               Sleep retryDelay])
             | Returns resp \<Rightarrow>
                 if json_parse_health h (js_trim resp) = Json_status (Some ''healthy'') then
                   (True, tr @ [get_pod_call serviceName ns, health_call (js_trim out) ns])
                 else
                   (False, tr @ [get_pod_call serviceName ns, health_call (js_trim out) ns,
                                 Sleep retryDelay])))"

text \<open>The loop itself: at most \<open>maxRetries\<close> attempts, then \<open>return false\<close>.\<close>

function verify_loop :: "world \<Rightarrow> host \<Rightarrow> string \<Rightarrow> string \<Rightarrow> nat \<Rightarrow> bool act" where
  "verify_loop w h serviceName ns i tr =
     (if i < maxRetries then
        (case health_attempt w h serviceName ns tr of
           (True, tr') \<Rightarrow> (Inr True, tr')
         | (False, tr') \<Rightarrow> verify_loop w h serviceName ns (Suc i) tr')
      else (Inr False, tr))"
  by pat_completeness auto
termination
  by (relation "measure (\<lambda>(w, h, serviceName, ns, i, tr). maxRetries - i)") auto

declare verify_loop.simps [simp del]

definition verifyHealth :: "world \<Rightarrow> host \<Rightarrow> string \<Rightarrow> string \<Rightarrow> bool act" where
  "verifyHealth w h serviceName ns = verify_loop w h serviceName ns 0"

text \<open>\<open>runMigrationJob\<close>: write the manifest, then apply it, wait for the job, read its
  condition and delete it; the manifest file is removed in the \<open>finally\<close> block.\<close>

definition migration_steps :: "world \<Rightarrow> string \<Rightarrow> string \<Rightarrow> string \<Rightarrow> bool act" where
  "migration_steps w jobName ns jobManifestPath =
     and_then (exec w (Exec Cluster_cli (''kubectl apply -f '' @ jobManifestPath))) (\<lambda>_.
     and_then (exec w (Exec Cluster_cli
                 (''kubectl wait --for=condition=complete job/'' @ jobName @ '' -n '' @ ns @
                  '' --timeout=300s''))) (\<lambda>_.
     and_then (exec w (Exec Cluster_cli
                 (''kubectl get job '' @ jobName @ '' -n '' @ ns @
                  '' -o jsonpath='{.status.conditions[0].type}'' @ sq))) (\<lambda>out.
     if js_trim out \<noteq> ''Complete'' then
       and_then (exec w (Exec Cluster_cli (''kubectl logs job/'' @ jobName @ '' -n '' @ ns)))
         (\<lambda>_. succeed False)
     else
       and_then (exec w (Exec Cluster_cli
                   (''kubectl delete job '' @ jobName @ '' -n '' @ ns @
                    '' --ignore-not-found=true'')))
         (\<lambda>_. succeed True))))"

definition runMigrationJob :: "world \<Rightarrow> host \<Rightarrow> string \<Rightarrow> string \<Rightarrow> bool act" where
  "runMigrationJob w h jobName ns =
     and_then (exec w (Write_file (''/tmp/'' @ jobName @ ''.yaml''))) (\<lambda>_.
       finally_do (migration_steps w jobName ns (''/tmp/'' @ jobName @ ''.yaml''))
         (if file_exists h (''/tmp/'' @ jobName @ ''.yaml'')
          then and_then (exec w (Unlink_file (''/tmp/'' @ jobName @ ''.yaml''))) (\<lambda>_. succeed ())
          else succeed ()))"

text \<open>The optional registry login: its failure is logged and thrown again.\<close>

definition docker_login :: "world \<Rightarrow> registry_config \<Rightarrow> unit act" where
  "docker_login w reg =
     (if truthy_str (username reg) \<and> truthy_str (password reg) then
        try_catch
          (and_then (exec w (Exec Container_engine
                       (''echo '' @ dq @ str_or (password reg) [] @ dq @ '' | docker login '' @
                        endpoint reg @ '' -u '' @ str_or (username reg) [] @
                        '' --password-stdin'')))
             (\<lambda>_. succeed ()))
          (\<lambda>e. throw e)
      else succeed ())"

text \<open>The body of the \<open>try\<close> block of \<open>deploy\<close>: steps 1 to 5 and the pod count.\<close>

definition service_steps ::
  "world \<Rightarrow> host \<Rightarrow> service_info \<Rightarrow> service_deployment_config \<Rightarrow> string \<Rightarrow>
   deployment_config option \<Rightarrow> service_result act" where
  "service_steps w h svc sdc gitHash deploymentConfig =
     (let reg = registry (sd_container sdc);
          ns = namespace (kubernetes (sd_container sdc));
          imageTag = (if gitHash = [] then ''latest'' else gitHash);
          gitSha = (if gitHash = [] then ''unknown'' else gitHash);
          fullImageName = endpoint reg @ ''/'' @ repository reg @ '':'' @ imageTag;
          latestImageName = endpoint reg @ ''/'' @ repository reg @ '':latest'';
          jobName = svc_name svc @ ''-migration-'' @ show_nat (now h);
          dockerfile_path = dockerfile_of deploymentConfig
      in
      and_then (buildDockerImage w (svc_name svc) imageTag dockerfile_path gitSha (iso_time h))
        (\<lambda>_.
      and_then (exec_all w
        [Exec Container_engine
           (''docker tag '' @ svc_name svc @ '':'' @ imageTag @ '' '' @ fullImageName),
         Exec Container_engine
           (''docker tag '' @ svc_name svc @ '':'' @ imageTag @ '' '' @ latestImageName)])
        (\<lambda>_.
      and_then (docker_login w reg) (\<lambda>_.
      and_then (exec_all w
        [Exec Container_engine (''docker push '' @ fullImageName),
         Exec Container_engine (''docker push '' @ latestImageName)]) (\<lambda>_.
      and_then (runMigrationJob w h jobName ns) (\<lambda>migrationResult.
      if \<not> migrationResult then throw (Error ''Migration job failed'')
      else
      and_then (exec_all w
        [Exec Cluster_cli
           (''kubectl rollout restart deployment/'' @ svc_name svc @ '' -n '' @ ns),
         Exec Cluster_cli
           (''kubectl rollout status deployment/'' @ svc_name svc @ '' -n '' @ ns @
            '' --timeout=300s'')]) (\<lambda>_.
      and_then (verifyHealth w h (svc_name svc) ns) (\<lambda>healthResult.
      if \<not> healthResult then throw (Error ''Health check verification failed'')
      else
      and_then (exec w (Exec Cluster_cli
                  (''kubectl get pods -n '' @ ns @ '' -l app='' @ svc_name svc @
                   '' --no-headers 2>/dev/null | wc -l''))) (\<lambda>out.
      succeed \<lparr> sr_imageName = fullImageName, sr_imageTag = imageTag,
                migrationCompleted = True, deploymentRestarted = True,
                healthCheckPassed = True,
                sr_podCount = (case js_parseInt (js_trim out) of
                                 None \<Rightarrow> 0 | Some n \<Rightarrow> n),
                sr_namespace = ns, sr_gitHash = Some gitSha,
                sr_buildTimestamp = Some (iso_time h) \<rparr>)))))))))"

text \<open>The \<open>catch\<close> block of \<open>deploy\<close>: attempt the rollback, ignore its failure, and throw
  the error that was caught.\<close>

definition attempt_rollback :: "world \<Rightarrow> string \<Rightarrow> string \<Rightarrow> err \<Rightarrow> service_result act" where
  "attempt_rollback w serviceName ns error =
     and_then
       (try_catch (and_then (exec w (rollout_undo serviceName ns)) (\<lambda>_. succeed ()))
          (\<lambda>rollbackError. succeed ()))
       (\<lambda>_. throw error)"

definition ServiceDeploymentService_deploy ::
  "world \<Rightarrow> host \<Rightarrow> service_info \<Rightarrow> service_deployment_config \<Rightarrow> string \<Rightarrow> bool \<Rightarrow>
   deployment_config option \<Rightarrow> service_result act" where
  "ServiceDeploymentService_deploy w h svc sdc gitHash dryRun deploymentConfig =
     (if dryRun then
        succeed \<lparr> sr_imageName =
                    endpoint (registry (sd_container sdc)) @ ''/'' @
                    repository (registry (sd_container sdc)) @ '':'' @
                    (if gitHash = [] then ''latest'' else gitHash),
                  sr_imageTag = (if gitHash = [] then ''latest'' else gitHash),
                  migrationCompleted = False, deploymentRestarted = False,
                  healthCheckPassed = False, sr_podCount = 0,
                  sr_namespace = namespace (kubernetes (sd_container sdc)),
                  sr_gitHash = None, sr_buildTimestamp = None \<rparr>
      else
        try_catch (service_steps w h svc sdc gitHash deploymentConfig)
          (attempt_rollback w (svc_name svc)
             (namespace (kubernetes (sd_container sdc)))))"

section \<open>GitOps container strategy (GitOpsContainerDeploymentService)\<close>

record gitops_result =
  g_imageName :: string
  g_imageTag :: string
  manifestUpdated :: bool
  commitHash :: string
  prCreated :: bool

text \<open>\<open>fullConfig?.global?.projectRoot || process.cwd()\<close>.\<close>

definition project_root :: "host \<Rightarrow> full_config option \<Rightarrow> string" where
  "project_root h fullConfig =
     (case fullConfig of
        None \<Rightarrow> cwd h
      | Some fc \<Rightarrow> (case fc_global fc of None \<Rightarrow> cwd h | Some g \<Rightarrow> str_or (projectRoot g) (cwd h)))"

text \<open>The NodePort of an in-cluster registry: the configured port when it is truthy,
  otherwise the answer of the cluster query, and 30500 when \<open>parseInt\<close> of that answer is
  \<open>NaN\<close> or zero.  The query is an \<open>execSync\<close> outside any inner \<open>try\<close>: when the command
  fails, the error leaves \<open>deploy\<close>.\<close>

definition nodeport_query :: "string \<Rightarrow> call" where
  "nodeport_query ns =
     Exec Cluster_cli (''kubectl get svc -n '' @ ns @
        '' docker-registry-nodeport -o jsonpath='{.spec.ports[0].nodePort}'' @ sq)"

definition gitops_nodePort :: "world \<Rightarrow> registry_config \<Rightarrow> int act" where
  "gitops_nodePort w reg =
     (if truthy_num (nodePort reg) then succeed (case nodePort reg of None \<Rightarrow> 0 | Some p \<Rightarrow> p)
      else
        and_then (exec w (nodeport_query (reg_namespace reg))) (\<lambda>nodePortOutput.
          succeed (if truthy_num (js_parseInt (js_trim nodePortOutput))
                   then (case js_parseInt (js_trim nodePortOutput) of None \<Rightarrow> 0 | Some p \<Rightarrow> p)
                   else 30500)))"

text \<open>The four calls that tag and push through \<open>localhost:<nodePort>\<close>.\<close>

definition nodeport_push_calls :: "string \<Rightarrow> string \<Rightarrow> string \<Rightarrow> int \<Rightarrow> call list" where
  "nodeport_push_calls serviceName repo imageTag port =
     [Exec Container_engine
        (''docker tag '' @ serviceName @ '':'' @ imageTag @ '' '' @
         ''localhost:'' @ show_int port @ ''/'' @ repo @ '':'' @ imageTag),
      Exec Container_engine
        (''docker tag '' @ serviceName @ '':'' @ imageTag @ '' '' @
         ''localhost:'' @ show_int port @ ''/'' @ repo @ '':latest''),
      Exec Container_engine
        (''docker push '' @ ''localhost:'' @ show_int port @ ''/'' @ repo @ '':'' @ imageTag),
      Exec Container_engine
        (''docker push '' @ ''localhost:'' @ show_int port @ ''/'' @ repo @ '':latest'')]"

definition external_push_calls :: "registry_config \<Rightarrow> string \<Rightarrow> call list" where
  "external_push_calls reg imageTag =
     [Exec Container_engine
        (''docker push '' @ endpoint reg @ ''/'' @ repository reg @ '':'' @ imageTag),
      Exec Container_engine
        (''docker push '' @ endpoint reg @ ''/'' @ repository reg @ '':latest'')]"

definition gitops_push :: "world \<Rightarrow> string \<Rightarrow> registry_config \<Rightarrow> string \<Rightarrow> unit act" where
  "gitops_push w serviceName reg imageTag =
     (if js_includes (endpoint reg) ''svc.cluster.local'' then
        and_then (gitops_nodePort w reg) (\<lambda>port.
          exec_all w (nodeport_push_calls serviceName (repository reg) imageTag port))
      else exec_all w (external_push_calls reg imageTag))"

text \<open>The candidate paths of the kustomization file and the first one that exists.\<close>

definition default_descriptor_path :: "string \<Rightarrow> string \<Rightarrow> string \<Rightarrow> string" where
  "default_descriptor_path base ns serviceName =
     base @ ''/infrastructure/'' @ ns @ ''/services/'' @ serviceName @ ''/kustomization.yaml''"

definition possiblePaths ::
  "host \<Rightarrow> kubernetes_config \<Rightarrow> string \<Rightarrow> deployment_config option \<Rightarrow> full_config option \<Rightarrow>
   string list" where
  "possiblePaths h k8s serviceName deploymentConfig fullConfig =
     (if truthy_str (gitOpsPath k8s) then
        (let customPath =
               (if js_endsWith (str_or (gitOpsPath k8s) []) ''/kustomization.yaml''
                then str_or (gitOpsPath k8s) []
                else path_join h [str_or (gitOpsPath k8s) [], ''kustomization.yaml''])
         in [path_join h [project_root h fullConfig, customPath], customPath])
      else
        (let gitOpsBase =
               (case deploymentConfig of
                  None \<Rightarrow> ''k8s/clusters/main''
                | Some dc \<Rightarrow>
                    (case dc_global dc of
                       None \<Rightarrow> ''k8s/clusters/main''
                     | Some g \<Rightarrow> str_or (gitOpsBasePath g) ''k8s/clusters/main''))
         in [default_descriptor_path (project_root h fullConfig @ ''/'' @ gitOpsBase)
               (namespace k8s) serviceName,
             default_descriptor_path gitOpsBase (namespace k8s) serviceName]))"

fun first_existing :: "host \<Rightarrow> string list \<Rightarrow> string option" where
  "first_existing h [] = None"
| "first_existing h (p # ps) =
     (let fullPath = (if js_startsWith p ''/'' then p else path_join h [cwd h, ''../../..'', p])
      in if file_exists h fullPath then Some fullPath else first_existing h ps)"

text \<open>The path of the descriptor that is created when none exists.\<close>

definition new_descriptor_path ::
  "host \<Rightarrow> kubernetes_config \<Rightarrow> string \<Rightarrow> full_config option \<Rightarrow> string" where
  "new_descriptor_path h k8s serviceName fullConfig =
     (let serviceDir =
        (if truthy_str (gitOpsPath k8s) then
           path_join h [project_root h fullConfig,
             (if js_endsWith (str_or (gitOpsPath k8s) []) ''/kustomization.yaml''
              then path_dirname h (str_or (gitOpsPath k8s) [])
              else str_or (gitOpsPath k8s) [])]
         else
           project_root h fullConfig @ ''/'' @
           (case fullConfig of
              None \<Rightarrow> ''k8s/clusters/main''
            | Some fc \<Rightarrow>
                (case fc_global fc of
                   None \<Rightarrow> ''k8s/clusters/main''
                 | Some g \<Rightarrow> str_or (gitOpsBasePath g) ''k8s/clusters/main'')) @
           ''/infrastructure/'' @ namespace k8s @ ''/services/'' @ serviceName)
      in path_join h [serviceDir, ''kustomization.yaml''])"

text \<open>Step 4: create the descriptor, or read, patch and write the existing one.  The
  result is the path of the file.\<close>

definition update_manifest ::
  "world \<Rightarrow> host \<Rightarrow> string \<Rightarrow> container_config \<Rightarrow> string \<Rightarrow> deployment_config option \<Rightarrow>
   full_config option \<Rightarrow> string act" where
  "update_manifest w h serviceName config imageTag deploymentConfig fullConfig =
     (case first_existing h
             (possiblePaths h (kubernetes config) serviceName deploymentConfig fullConfig) of
        None \<Rightarrow>
          and_then
            (exec w (Write_descriptor
                       (new_descriptor_path h (kubernetes config) serviceName fullConfig)
                       (new_descriptor (namespace (kubernetes config))
                          (endpoint (registry config)) (repository (registry config)) imageTag)))
            (\<lambda>_. succeed (new_descriptor_path h (kubernetes config) serviceName fullConfig))
      | Some kustomizationPath \<Rightarrow>
          (case read_file h kustomizationPath of
             Fails m \<Rightarrow> throw (Error m)
           | Returns kustomizationContent \<Rightarrow>
               (case yaml_load h kustomizationContent of
                  Inl e \<Rightarrow> throw e
                | Inr kustomization \<Rightarrow>
                    (case patch_descriptor (endpoint (registry config))
                            (repository (registry config)) imageTag kustomization of
                       Inl e \<Rightarrow> throw e
                     | Inr patched \<Rightarrow>
                         and_then (exec w (Write_descriptor kustomizationPath patched))
                           (\<lambda>_. succeed kustomizationPath)))))"

text \<open>Step 5: commit and push; every failure is logged and swallowed.\<close>

definition commit_manifest :: "world \<Rightarrow> string \<Rightarrow> string \<Rightarrow> string \<Rightarrow> unit act" where
  "commit_manifest w kustomizationPath serviceName imageTag =
     try_catch
       (exec_all w
          [Exec Version_control (''git add '' @ kustomizationPath),
           Exec Version_control
             (''git commit -m '' @ dq @ ''chore(k8s): update '' @ serviceName @ '' image to '' @
              imageTag @ dq),
           Exec Version_control ''git push origin main''])
       (\<lambda>error. succeed ())"

text \<open>The removal of the local image tag; its failure is ignored.\<close>

definition remove_local_image :: "world \<Rightarrow> string \<Rightarrow> string \<Rightarrow> unit act" where
  "remove_local_image w serviceName imageTag =
     try_catch
       (and_then (exec w (Exec Container_engine
                    (''docker rmi '' @ serviceName @ '':'' @ imageTag))) (\<lambda>_. succeed ()))
       (\<lambda>error. succeed ())"

definition gitops_steps ::
  "world \<Rightarrow> host \<Rightarrow> service_info \<Rightarrow> container_config \<Rightarrow> string \<Rightarrow> hooks option \<Rightarrow>
   deployment_config option \<Rightarrow> full_config option \<Rightarrow> gitops_result act" where
  "gitops_steps w h svc config gitHash hks deploymentConfig fullConfig =
     (let reg = registry config;
          imageTag = gitHash @ ''-'' @ show_nat (now h);
          fullImageName = endpoint reg @ ''/'' @ repository reg @ '':'' @ imageTag;
          latestImageName = endpoint reg @ ''/'' @ repository reg @ '':latest''
      in
      and_then (run_phase w (phase_of pre_deploy hks) ''pre-deploy'') (\<lambda>_.
      if \<not> file_exists h (dockerfile_of deploymentConfig) then
        throw (Error (''Dockerfile not found: '' @ dockerfile_of deploymentConfig))
      else
      and_then (exec w (Exec Container_engine
                  (''docker build -f '' @ dockerfile_of deploymentConfig @ '' -t '' @
                   svc_name svc @ '':'' @ imageTag @ '' .''))) (\<lambda>_.
      and_then (run_phase w (phase_of post_build hks) ''post-build'') (\<lambda>_.
      and_then (exec_all w
        [Exec Container_engine
           (''docker tag '' @ svc_name svc @ '':'' @ imageTag @ '' '' @ fullImageName),
         Exec Container_engine
           (''docker tag '' @ svc_name svc @ '':'' @ imageTag @ '' '' @ latestImageName)])
        (\<lambda>_.
      and_then (gitops_push w (svc_name svc) reg imageTag) (\<lambda>_.
      and_then (update_manifest w h (svc_name svc) config imageTag deploymentConfig fullConfig)
        (\<lambda>kustomizationPath.
      and_then (commit_manifest w kustomizationPath (svc_name svc) imageTag) (\<lambda>_.
      and_then (run_phase w (phase_of post_deploy hks) ''post-deploy'') (\<lambda>_.
      and_then (remove_local_image w (svc_name svc) imageTag) (\<lambda>_.
      succeed \<lparr> g_imageName = fullImageName, g_imageTag = imageTag, manifestUpdated = True,
                commitHash = gitHash, prCreated = False \<rparr>))))))))))"

definition GitOpsContainerDeploymentService_deploy ::
  "world \<Rightarrow> host \<Rightarrow> service_info \<Rightarrow> container_config \<Rightarrow> string \<Rightarrow> bool \<Rightarrow> hooks option \<Rightarrow>
   deployment_config option \<Rightarrow> full_config option \<Rightarrow> gitops_result act" where
  "GitOpsContainerDeploymentService_deploy w h svc config gitHash dryRun hks deploymentConfig
     fullConfig =
     (if dryRun then
        succeed \<lparr> g_imageName =
                    endpoint (registry config) @ ''/'' @ repository (registry config) @ '':'' @
                    gitHash @ ''-'' @ show_nat (now h),
                  g_imageTag = gitHash @ ''-'' @ show_nat (now h),
                  manifestUpdated = False, commitHash = gitHash, prCreated = False \<rparr>
      else
        try_catch (gitops_steps w h svc config gitHash hks deploymentConfig fullConfig)
          (\<lambda>error. throw (Error (''GitOps container deployment failed: '' @ message error))))"

section \<open>Direct container strategy (ContainerDeploymentService)\<close>

record container_result =
  c_imageName :: string
  c_imageTag :: string
  manifestsApplied :: bool
  c_podCount :: int
  c_namespace :: string

text \<open>The NodePort of the direct strategy: the cluster is always asked, and the chain
  \<open>parseInt(output) || config.registry?.nodePort || 30500\<close> picks the port.\<close>

definition direct_nodePort :: "world \<Rightarrow> registry_config \<Rightarrow> int act" where
  "direct_nodePort w reg =
     and_then (exec w (nodeport_query (str_or (Some (reg_namespace reg)) ''container-registry'')))
       (\<lambda>nodePortOutput.
          succeed (if truthy_num (js_parseInt (js_trim nodePortOutput))
                   then (case js_parseInt (js_trim nodePortOutput) of None \<Rightarrow> 0 | Some p \<Rightarrow> p)
                   else if truthy_num (nodePort reg)
                   then (case nodePort reg of None \<Rightarrow> 0 | Some p \<Rightarrow> p)
                   else 30500))"

definition direct_push :: "world \<Rightarrow> string \<Rightarrow> registry_config \<Rightarrow> string \<Rightarrow> unit act" where
  "direct_push w serviceName reg imageTag =
     (if js_includes (endpoint reg) ''svc.cluster.local'' then
        and_then (direct_nodePort w reg) (\<lambda>port.
          exec_all w (nodeport_push_calls serviceName (repository reg) imageTag port))
      else exec_all w (external_push_calls reg imageTag))"

text \<open>The search for a directory with manifests: the first candidate that exists and
  lists at least one \<open>.yaml\<close> file.\<close>

fun find_manifests :: "world \<Rightarrow> host \<Rightarrow> string list \<Rightarrow> string option act" where
  "find_manifests w h [] tr = (Inr None, tr)"
| "find_manifests w h (p # ps) tr =
     (let fullPath = (if js_startsWith p ''/'' then p else path_join h [cwd h, p])
      in if file_exists h fullPath then
           (case w tr (Exec Local_shell (''ls '' @ fullPath @ ''/*.yaml 2>/dev/null || true'')) of
              Fails m \<Rightarrow>
                (Inl (Error m),
                 tr @ [Exec Local_shell (''ls '' @ fullPath @ ''/*.yaml 2>/dev/null || true'')])
            | Returns files \<Rightarrow>
                if js_trim files \<noteq> [] then
                  (Inr (Some fullPath),
                   tr @ [Exec Local_shell (''ls '' @ fullPath @ ''/*.yaml 2>/dev/null || true'')])
                else
                  find_manifests w h ps
                    (tr @ [Exec Local_shell (''ls '' @ fullPath @ ''/*.yaml 2>/dev/null || true'')]))
         else find_manifests w h ps tr)"

text \<open>\<open>generateAndApplyManifests\<close>: two manifests written to a fresh temporary directory
  and applied; the directory is removed in the \<open>finally\<close> block.\<close>

definition generateAndApplyManifests :: "world \<Rightarrow> host \<Rightarrow> unit act" where
  "generateAndApplyManifests w h =
     and_then (exec w (Make_temp_dir ''heimdizzy-'')) (\<lambda>tempDir.
       finally_do
         (exec_all w
            [Write_file (path_join h [tempDir, ''deployment.yaml'']),
             Write_file (path_join h [tempDir, ''service.yaml'']),
             Exec Cluster_cli (''kubectl apply -f '' @ path_join h [tempDir, ''deployment.yaml'']),
             Exec Cluster_cli (''kubectl apply -f '' @ path_join h [tempDir, ''service.yaml''])])
         (and_then (exec w (Remove_dir tempDir)) (\<lambda>_. succeed ())))"

definition apply_manifests ::
  "world \<Rightarrow> host \<Rightarrow> service_info \<Rightarrow> container_config \<Rightarrow> unit act" where
  "apply_manifests w h svc config =
     (let ns = namespace (kubernetes config);
          latestImageName =
            endpoint (registry config) @ ''/'' @ repository (registry config) @ '':latest''
      in
      if useExistingManifests (kubernetes config) then
        and_then (find_manifests w h
          [cwd h @ ''/k8s/clusters/main/infrastructure/'' @ ns @ ''/services/'' @ svc_name svc,
           ''/k8s/clusters/main/infrastructure/'' @ ns @ ''/services/'' @ svc_name svc,
           ''k8s/'' @ svc_name svc,
           ''kubernetes/'' @ svc_name svc,
           ''.'']) (\<lambda>manifestPath.
          case manifestPath of
            Some mp \<Rightarrow>
              exec_all w
                [Exec Cluster_cli (''kubectl apply -k '' @ mp),
                 Exec Cluster_cli
                   (''kubectl set image deployment/'' @ svc_name svc @ '' '' @ svc_name svc @
                    ''='' @ latestImageName @ '' -n '' @ ns),
                 Exec Cluster_cli
                   (''kubectl rollout restart deployment/'' @ svc_name svc @ '' -n '' @ ns)]
          | None \<Rightarrow> generateAndApplyManifests w h)
      else generateAndApplyManifests w h)"

definition container_steps ::
  "world \<Rightarrow> host \<Rightarrow> service_info \<Rightarrow> container_config \<Rightarrow> string \<Rightarrow> container_result act" where
  "container_steps w h svc config gitHash =
     (let reg = registry config;
          ns = namespace (kubernetes config);
          imageTag = gitHash @ ''-'' @ show_nat (now h);
          fullImageName = endpoint reg @ ''/'' @ repository reg @ '':'' @ imageTag;
          latestImageName = endpoint reg @ ''/'' @ repository reg @ '':latest''
      in
      and_then (exec_all w
        [Exec Container_engine
           (''docker build -f Dockerfile -t '' @ svc_name svc @ '':'' @ imageTag @ '' .''),
         Exec Container_engine
           (''docker tag '' @ svc_name svc @ '':'' @ imageTag @ '' '' @ fullImageName),
         Exec Container_engine
           (''docker tag '' @ svc_name svc @ '':'' @ imageTag @ '' '' @ latestImageName)])
        (\<lambda>_.
      and_then (direct_push w (svc_name svc) reg imageTag) (\<lambda>_.
      and_then (apply_manifests w h svc config) (\<lambda>_.
      and_then
        (try_catch
           (and_then (exec w (Exec Cluster_cli
              (''kubectl rollout status deployment/'' @ svc_name svc @ '' -n '' @ ns @
               '' --timeout='' @
               show_int (if truthy_num (deploymentTimeout (kubernetes config))
                         then (case deploymentTimeout (kubernetes config) of
                                 None \<Rightarrow> 300 | Some t \<Rightarrow> t)
                         else 300) @ ''s''))) (\<lambda>_. succeed ()))
           (\<lambda>error. succeed ())) (\<lambda>_.
      and_then (exec w (Exec Cluster_cli
                  (''kubectl get pods -n '' @ ns @ '' -l app='' @ svc_name svc @
                   '' --no-headers 2>/dev/null | wc -l''))) (\<lambda>podCountOutput.
      and_then (remove_local_image w (svc_name svc) imageTag) (\<lambda>_.
      succeed \<lparr> c_imageName = latestImageName, c_imageTag = imageTag, manifestsApplied = True,
                c_podCount = (case js_parseInt (js_trim podCountOutput) of
                                None \<Rightarrow> 0 | Some n \<Rightarrow> n),
                c_namespace = ns \<rparr>)))))))"

definition ContainerDeploymentService_deploy ::
  "world \<Rightarrow> host \<Rightarrow> service_info \<Rightarrow> container_config \<Rightarrow> string \<Rightarrow> bool \<Rightarrow>
   container_result act" where
  "ContainerDeploymentService_deploy w h svc config gitHash dryRun =
     (if dryRun then
        succeed \<lparr> c_imageName =
                    endpoint (registry config) @ ''/'' @ repository (registry config) @ '':'' @
                    gitHash @ ''-'' @ show_nat (now h),
                  c_imageTag = gitHash @ ''-'' @ show_nat (now h),
                  manifestsApplied = False, c_podCount = 0,
                  c_namespace = namespace (kubernetes config) \<rparr>
      else
        try_catch (container_steps w h svc config gitHash)
          (\<lambda>error. throw (Error (''Container deployment failed: '' @ message error))))"

section \<open>Package-registry strategies (NpmDeploymentService, DockerHubDeploymentService)\<close>

record npm_result =
  packageName :: string
  version :: string
  nr_registry :: string
  nr_tag :: string
  published :: bool

text \<open>\<open>registry.replace(/^https?:/, '')\<close>.\<close>

definition strip_scheme :: "string \<Rightarrow> string" where
  "strip_scheme r =
     (if js_startsWith r ''https:'' then drop 6 r
      else if js_startsWith r ''http:'' then drop 5 r
      else r)"

definition publish_command :: "npm_config \<Rightarrow> string" where
  "publish_command npmConfig =
     ''npm publish --registry '' @ npm_registry npmConfig @
     (if npm_tag npmConfig \<noteq> ''latest'' then '' --tag '' @ npm_tag npmConfig else []) @
     (if npm_access npmConfig = ''public'' then '' --access public''
      else if npm_access npmConfig = ''restricted'' then '' --access restricted'' else []) @
     (if truthy_str (npm_otp npmConfig) then '' --otp '' @ str_or (npm_otp npmConfig) [] else [])"

text \<open>The removal of \<open>.npmrc\<close>; its failure is ignored.\<close>

definition remove_npmrc :: "world \<Rightarrow> string \<Rightarrow> unit act" where
  "remove_npmrc w npmrcPath =
     try_catch (and_then (exec w (Unlink_file npmrcPath)) (\<lambda>_. succeed ()))
       (\<lambda>error. succeed ())"

definition npm_steps ::
  "world \<Rightarrow> host \<Rightarrow> npm_config \<Rightarrow> string \<Rightarrow> string \<Rightarrow> string \<Rightarrow> npm_result act" where
  "npm_steps w h npmConfig root pkg ver =
     (if \<not> truthy_str (npm_token npmConfig) \<and> \<not> truthy_str (env_var h ''NPM_TOKEN'') then
        throw (Error (''NPM authentication token required. Set NPM_TOKEN environment '' @
                      ''variable or provide token in config.''))
      else
        and_then (exec w (Write_file (path_join h [root, ''.npmrc'']))) (\<lambda>_.
        and_then (exec w (Exec Package_registry (publish_command npmConfig))) (\<lambda>_.
        and_then (remove_npmrc w (path_join h [root, ''.npmrc''])) (\<lambda>_.
        succeed \<lparr> packageName = pkg, version = ver, nr_registry = npm_registry npmConfig,
                  nr_tag = npm_tag npmConfig, published = True \<rparr>))))"

definition NpmDeploymentService_deploy ::
  "world \<Rightarrow> host \<Rightarrow> service_info \<Rightarrow> npm_config \<Rightarrow> string \<Rightarrow> bool \<Rightarrow> npm_result act" where
  "NpmDeploymentService_deploy w h svc npmConfig root dryRun =
     (case read_file h (path_join h [root, ''package.json'']) of
        Fails m \<Rightarrow> throw (Error m)
      | Returns packageJsonContent \<Rightarrow>
          (case json_parse_package h packageJsonContent of
             Bad_package \<Rightarrow> throw (Error ''Unexpected token in JSON'')
           | Package pkg ver \<Rightarrow>
               if \<not> truthy_str pkg \<or> \<not> truthy_str ver then
                 throw (Error ''Package name and version are required in package.json'')
               else if dryRun \<or> npm_dryRun npmConfig then
                 succeed \<lparr> packageName = str_or pkg [], version = str_or ver [],
                           nr_registry = npm_registry npmConfig, nr_tag = npm_tag npmConfig,
                           published = False \<rparr>
               else
                 try_catch (npm_steps w h npmConfig root (str_or pkg []) (str_or ver []))
                   (\<lambda>error.
                      and_then (remove_npmrc w (path_join h [root, ''.npmrc''])) (\<lambda>_.
                        throw (Error (''NPM publish failed: '' @ message error))))))"

record dockerhub_result =
  dr_repository :: string
  dr_tag :: string
  additionalTags :: "string list"
  pushed :: bool
  dr_imageName :: string

definition primary_tag :: "dockerhub_config \<Rightarrow> string \<Rightarrow> string" where
  "primary_tag cfg gitHash = (if dh_tag cfg = ''latest'' then gitHash else dh_tag cfg)"

definition additional_tags :: "dockerhub_config \<Rightarrow> string list" where
  "additional_tags cfg =
     (let tags = (case dh_tags cfg of None \<Rightarrow> [] | Some ts \<Rightarrow> ts)
      in if ''latest'' \<notin> set tags \<and> dh_tag cfg \<noteq> ''latest'' then tags @ [''latest''] else tags)"

definition buildx_command :: "dockerhub_config \<Rightarrow> string \<Rightarrow> string \<Rightarrow> string" where
  "buildx_command cfg root gitHash =
     ''docker buildx build --push'' @
     '' --platform '' @ concat (case dh_platform cfg of [] \<Rightarrow> []
                                | p # ps \<Rightarrow> p # map (\<lambda>q. '','' @ q) ps) @
     '' -t '' @ dh_repository cfg @ '':'' @ primary_tag cfg gitHash @
     concat (map (\<lambda>t. '' -t '' @ dh_repository cfg @ '':'' @ t) (additional_tags cfg)) @
     concat (map (\<lambda>(k, v). '' --build-arg '' @ k @ ''='' @ dq @ v @ dq)
               (case dh_buildArgs cfg of None \<Rightarrow> [] | Some args \<Rightarrow> args)) @
     '' --build-arg GIT_HASH='' @ dq @ gitHash @ dq @
     '' -f '' @ dh_dockerfile cfg @ '' '' @ root"

definition dockerhub_steps ::
  "world \<Rightarrow> host \<Rightarrow> dockerhub_config \<Rightarrow> string \<Rightarrow> string \<Rightarrow> dockerhub_result act" where
  "dockerhub_steps w h cfg root gitHash =
     (let user = (if truthy_str (dh_username cfg) then dh_username cfg
                  else env_var h ''DOCKER_USERNAME'');
          pass = (if truthy_str (dh_password cfg) then dh_password cfg
                  else env_var h ''DOCKER_PASSWORD'')
      in
      if \<not> truthy_str user \<or> \<not> truthy_str pass then
        throw (Error (''Docker Hub credentials required. Set DOCKER_USERNAME and '' @
                      ''DOCKER_PASSWORD environment variables or provide in config.''))
      else
        and_then (exec w (Exec Container_engine
                    (''echo '' @ dq @ str_or pass [] @ dq @ '' | docker login -u '' @ dq @
                     str_or user [] @ dq @ '' --password-stdin''))) (\<lambda>_.
        and_then
          (try_catch
             (exec w (Exec Container_engine
                        ''docker buildx create --name heimdizzy-builder --use''))
             (\<lambda>error. exec w (Exec Container_engine ''docker buildx use heimdizzy-builder'')))
          (\<lambda>_.
        and_then (exec_all w
          [Exec Container_engine ''docker buildx inspect --bootstrap'',
           Exec Container_engine (buildx_command cfg root gitHash)]) (\<lambda>_.
        and_then
          (try_catch
             (exec w (Exec Container_engine ''docker buildx rm heimdizzy-builder''))
             (\<lambda>error. succeed [])) (\<lambda>_.
        succeed \<lparr> dr_repository = dh_repository cfg, dr_tag = primary_tag cfg gitHash,
                  additionalTags = additional_tags cfg, pushed = True,
                  dr_imageName = dh_repository cfg @ '':'' @ primary_tag cfg gitHash \<rparr>)))))"

definition DockerHubDeploymentService_deploy ::
  "world \<Rightarrow> host \<Rightarrow> service_info \<Rightarrow> dockerhub_config \<Rightarrow> string \<Rightarrow> string \<Rightarrow> bool \<Rightarrow>
   dockerhub_result act" where
  "DockerHubDeploymentService_deploy w h svc cfg root gitHash dryRun =
     (if dryRun then
        succeed \<lparr> dr_repository = dh_repository cfg, dr_tag = primary_tag cfg gitHash,
                  additionalTags = additional_tags cfg, pushed = False,
                  dr_imageName = dh_repository cfg @ '':'' @ primary_tag cfg gitHash \<rparr>
      else
        try_catch (dockerhub_steps w h cfg root gitHash)
          (\<lambda>error. throw (Error (''Docker Hub push failed: '' @ message error))))"

section \<open>Strategy dispatch (DeploymentService)\<close>

text \<open>The result record; a field that the strategy does not set is \<open>None\<close>.  A pod count is
  a JavaScript number: \<open>Some None\<close> is \<open>NaN\<close>.\<close>

record deployment_result =
  res_podCount :: "int option option"
  res_podStatus :: "string option"
  res_skipped :: "bool option"
  res_deployedFiles :: "nat option"
  res_invalidationId :: "string option"
  res_buildTime :: "nat option"
  res_deployTime :: "nat option"
  res_container :: "container_result option"
  res_npm :: "npm_result option"
  res_dockerhub :: "dockerhub_result option"
  res_service :: "service_result option"

definition no_result :: deployment_result where
  "no_result =
     \<lparr> res_podCount = None, res_podStatus = None, res_skipped = None,
       res_deployedFiles = None, res_invalidationId = None, res_buildTime = None,
       res_deployTime = None, res_container = None, res_npm = None, res_dockerhub = None,
       res_service = None \<rparr>"

definition skipped_result :: deployment_result where
  "skipped_result = no_result \<lparr> res_skipped := Some True \<rparr>"

definition deployWeb ::
  "world \<Rightarrow> host \<Rightarrow> service_info \<Rightarrow> s3_config \<Rightarrow> deployment \<Rightarrow> hooks option \<Rightarrow> bool \<Rightarrow>
   deployment_result act" where
  "deployWeb w h svc stor dep hks dryRun =
     (case web dep of
        None \<Rightarrow> throw (Error ''Web deployment configuration is required for web deploy type'')
      | Some webConfig \<Rightarrow>
          and_then (run_phase w (phase_of pre_deploy hks) ''pre-deployment'') (\<lambda>_.
          and_then (WebDeploymentService_deploy w h svc stor webConfig dryRun) (\<lambda>webResult.
          and_then
            (try_catch (run_phase w (phase_of post_deploy hks) ''post-deployment'')
               (\<lambda>error. throw error)) (\<lambda>_.
          succeed (no_result \<lparr> res_deployedFiles := Some (deployedFiles webResult),
                               res_invalidationId := invalidationId webResult,
                               res_buildTime := buildTime webResult,
                               res_deployTime := Some (deployTime webResult) \<rparr>)))))"

definition deployContainer ::
  "world \<Rightarrow> host \<Rightarrow> service_info \<Rightarrow> deployment \<Rightarrow> string \<Rightarrow> bool \<Rightarrow> hooks option \<Rightarrow>
   deployment_config option \<Rightarrow> full_config option \<Rightarrow> deployment_result act" where
  "deployContainer w h svc dep gitHash dryRun hks deploymentConfig fullConfig =
     (case container dep of
        None \<Rightarrow>
          throw (Error ''Container deployment configuration is required for container deploy type'')
      | Some config \<Rightarrow>
          and_then (run_phase w (phase_of pre_build hks) ''pre-build'') (\<lambda>_.
          if not_false (gitops config) then
            and_then (GitOpsContainerDeploymentService_deploy w h svc config gitHash dryRun hks
                        deploymentConfig fullConfig) (\<lambda>gitOpsResult.
            succeed (no_result \<lparr> res_podCount := Some (Some 0),
                                 res_container := Some
                                   \<lparr> c_imageName = g_imageName gitOpsResult,
                                     c_imageTag = g_imageTag gitOpsResult,
                                     manifestsApplied = manifestUpdated gitOpsResult,
                                     c_podCount = 0,
                                     c_namespace = namespace (kubernetes config) \<rparr> \<rparr>))
          else
            and_then (ContainerDeploymentService_deploy w h svc config gitHash dryRun)
              (\<lambda>containerResult.
            succeed (no_result \<lparr> res_podCount := Some (Some (c_podCount containerResult)),
                                 res_container := Some containerResult \<rparr>))))"

definition deployNpm ::
  "world \<Rightarrow> host \<Rightarrow> service_info \<Rightarrow> deployment \<Rightarrow> string option \<Rightarrow> bool \<Rightarrow> hooks option \<Rightarrow>
   deployment_result act" where
  "deployNpm w h svc dep root dryRun hks =
     (case npm dep of
        None \<Rightarrow> throw (Error ''NPM deployment configuration is required for npm deploy type'')
      | Some npmConfig \<Rightarrow>
          if \<not> truthy_str root then throw (Error ''Project root is required for NPM deployment'')
          else
            and_then (run_phase w (phase_of pre_deploy hks) ''pre-deployment'') (\<lambda>_.
            and_then (NpmDeploymentService_deploy w h svc npmConfig (str_or root []) dryRun)
              (\<lambda>npmResult.
            and_then (run_phase w (phase_of post_deploy hks) ''post-deployment'') (\<lambda>_.
            succeed (no_result \<lparr> res_npm := Some npmResult \<rparr>)))))"

definition deployDockerHub ::
  "world \<Rightarrow> host \<Rightarrow> service_info \<Rightarrow> deployment \<Rightarrow> string option \<Rightarrow> string \<Rightarrow> bool \<Rightarrow>
   hooks option \<Rightarrow> deployment_result act" where
  "deployDockerHub w h svc dep root gitHash dryRun hks =
     (case dockerhub dep of
        None \<Rightarrow>
          throw (Error ''Docker Hub deployment configuration is required for dockerhub deploy type'')
      | Some cfg \<Rightarrow>
          if \<not> truthy_str root then
            throw (Error ''Project root is required for Docker Hub deployment'')
          else
            and_then (run_phase w (phase_of pre_build hks) ''pre-build'') (\<lambda>_.
            and_then (run_phase w (phase_of post_build hks) ''post-build'') (\<lambda>_.
            and_then (run_phase w (phase_of pre_deploy hks) ''pre-deployment'') (\<lambda>_.
            and_then (DockerHubDeploymentService_deploy w h svc cfg (str_or root []) gitHash
                        dryRun) (\<lambda>dockerhubResult.
            and_then (run_phase w (phase_of post_deploy hks) ''post-deployment'') (\<lambda>_.
            succeed (no_result \<lparr> res_dockerhub := Some dockerhubResult \<rparr>)))))))"

text \<open>The pod-restart path with its fixed namespace and selector.\<close>

definition restart_steps :: "world \<Rightarrow> string \<Rightarrow> deployment_result act" where
  "restart_steps w serviceName =
     and_then (exec w (Exec Cluster_cli
       (''kubectl get pods -n novaskyn -l app='' @ serviceName @
        ''-lambda-rie --no-headers 2>/dev/null | wc -l''))) (\<lambda>out.
     if js_trim out = ''0'' then succeed (no_result \<lparr> res_podCount := Some (Some 0) \<rparr>)
     else
       and_then (exec w (Exec Cluster_cli
         (''kubectl delete pods -n novaskyn -l app='' @ serviceName @ ''-lambda-rie''))) (\<lambda>_.
       and_then (pause 3000) (\<lambda>_.
       and_then (exec w (Exec Cluster_cli
         (''kubectl get pods -n novaskyn -l app='' @ serviceName @
          ''-lambda-rie --no-headers''))) (\<lambda>status.
       succeed (no_result \<lparr> res_podCount := Some (js_parseInt (js_trim out)),
                            res_podStatus := Some (js_trim status) \<rparr>)))))"

definition deployToKubernetes :: "world \<Rightarrow> service_info \<Rightarrow> bool \<Rightarrow> deployment_result act" where
  "deployToKubernetes w svc dryRun =
     (if dryRun then succeed skipped_result
      else
        try_catch (restart_steps w (svc_name svc))
          (\<lambda>error.
             if js_includes (message error) ''kubectl: command not found''
             then succeed skipped_result
             else throw (Error (''Kubernetes deployment failed: '' @ message error))))"

text \<open>\<open>fullConfig?.global?.projectRoot\<close>.\<close>

definition configured_root :: "full_config option \<Rightarrow> string option" where
  "configured_root fullConfig =
     (case fullConfig of
        None \<Rightarrow> None
      | Some fc \<Rightarrow> (case fc_global fc of None \<Rightarrow> None | Some g \<Rightarrow> projectRoot g))"

text \<open>The dispatch of the multi-type \<open>DeploymentService\<close>: a chain of comparisons of the
  type tag, and the skipped result when none applies.\<close>

definition DeploymentService_deploy ::
  "world \<Rightarrow> host \<Rightarrow> service_info \<Rightarrow> deployment_config \<Rightarrow> bool \<Rightarrow> string option \<Rightarrow>
   full_config option \<Rightarrow> deployment_result act" where
  "DeploymentService_deploy w h svc deploymentConfig dryRun gitHash fullConfig =
     (let dep = dc_deployment deploymentConfig; hks = dc_hooks deploymentConfig in
      if dtype dep = ''web'' then deployWeb w h svc (storage deploymentConfig) dep hks dryRun
      else if dtype dep = ''container'' then
        deployContainer w h svc dep (str_or gitHash ''latest'') dryRun hks
          (Some deploymentConfig) fullConfig
      else if dtype dep = ''npm'' then
        deployNpm w h svc dep (configured_root fullConfig) dryRun hks
      else if dtype dep = ''dockerhub'' then
        deployDockerHub w h svc dep (configured_root fullConfig) (str_or gitHash ''latest'')
          dryRun hks
      else if dtype dep = ''lambda-zip'' \<and> environment deploymentConfig = ''staging'' then
        deployToKubernetes w svc dryRun
      else succeed skipped_result)"



section \<open>Orchestrator (the \<open>deploy\<close> command)\<close>

record options =
  opt_product :: "string option"
  skipBuild :: bool
  skipUpload :: bool
  opt_dryRun :: bool

text \<open>\<open>WebhookService.sendNotification\<close> posts when a webhook is configured and never
  fails its caller.  On a rate-limit answer it waits before it returns; that wait is not
  part of the model.\<close>

definition sendNotification :: "world \<Rightarrow> string option \<Rightarrow> webhook_event \<Rightarrow> unit act" where
  "sendNotification w webhookUrl event =
     (if \<not> truthy_str webhookUrl then succeed ()
      else
        try_catch
          (and_then (exec w (Post_webhook (str_or webhookUrl []) event)) (\<lambda>_. succeed ()))
          (\<lambda>error. succeed ()))"

text \<open>The \<open>notify\<close> helper: an event is sent unless notifications or the event are
  switched off.\<close>

definition event_enabled :: "notification_config option \<Rightarrow> webhook_event \<Rightarrow> bool" where
  "event_enabled n event =
     (case n of
        None \<Rightarrow> True
      | Some cfg \<Rightarrow>
          not_false (n_enabled cfg) \<and>
          (case n_events cfg of None \<Rightarrow> True | Some evs \<Rightarrow> not_false (evs event)))"

definition notify :: "world \<Rightarrow> deployment_config \<Rightarrow> webhook_event \<Rightarrow> unit act" where
  "notify w deploymentConfig event =
     (if event_enabled (notifications deploymentConfig) event then
        sendNotification w
          (case notifications deploymentConfig of None \<Rightarrow> None | Some cfg \<Rightarrow> webhook cfg) event
      else succeed ())"

text \<open>\<open>getDeploymentConfig\<close>: the first deployment of the requested environment.\<close>

definition getDeploymentConfig :: "full_config \<Rightarrow> string \<Rightarrow> err + deployment_config" where
  "getDeploymentConfig config env =
     (case find (\<lambda>d. environment d = env) (deployments config) of
        None \<Rightarrow> Inl (Error (''No deployment configuration found for environment: '' @ env))
      | Some d \<Rightarrow> Inr d)"

text \<open>\<open>Date.now().toString(36)\<close>, the fallback revision.\<close>

definition digit36 :: "nat \<Rightarrow> char" where
  "digit36 d = ''0123456789abcdefghijklmnopqrstuvwxyz'' ! (d mod 36)"

fun show_base36 :: "nat \<Rightarrow> string" where
  "show_base36 n = (if n < 36 then [digit36 n] else show_base36 (n div 36) @ [digit36 n])"

declare show_base36.simps [simp del]

definition git_revision :: "world \<Rightarrow> host \<Rightarrow> string act" where
  "git_revision w h =
     try_catch
       (and_then (exec w (Exec Version_control ''git rev-parse --short HEAD''))
          (\<lambda>out. succeed (js_trim out)))
       (\<lambda>error. succeed (show_base36 (now h)))"

definition skipBuildTypes :: "string list" where
  "skipBuildTypes = [''web'', ''container'', ''npm'', ''dockerhub'']"

definition skipUploadTypes :: "string list" where
  "skipUploadTypes = [''web'', ''container'', ''npm'', ''dockerhub'']"

text \<open>The build phase.  The result is the revision the Builder reports, when it ran.
  (The source also registers the Builder's cleanup as an exit handler of the process.)\<close>

definition build_phase ::
  "world \<Rightarrow> full_config \<Rightarrow> deployment_config \<Rightarrow> options \<Rightarrow> string option act" where
  "build_phase w config deploymentConfig opts =
     (if \<not> skipBuild opts \<and> fc_build config \<noteq> None \<and>
         dtype (dc_deployment deploymentConfig) \<notin> set skipBuildTypes then
        and_then (notify w deploymentConfig BuildStart) (\<lambda>_.
        and_then (exec w (Invoke_builder (opt_dryRun opts))) (\<lambda>builtHash.
        and_then (notify w deploymentConfig BuildSuccess) (\<lambda>_.
        succeed (Some builtHash))))
      else if skipBuild opts then
        and_then (notify w deploymentConfig BuildSkipped) (\<lambda>_. succeed None)
      else succeed None)"

text \<open>The upload phase.\<close>

definition upload_phase :: "world \<Rightarrow> deployment_config \<Rightarrow> options \<Rightarrow> unit act" where
  "upload_phase w deploymentConfig opts =
     (if \<not> skipUpload opts \<and> dtype (dc_deployment deploymentConfig) \<notin> set skipUploadTypes then
        and_then (notify w deploymentConfig UploadStart) (\<lambda>_.
        and_then (exec w (Invoke_publisher (opt_dryRun opts))) (\<lambda>artifactPath.
        notify w deploymentConfig UploadSuccess))
      else if skipUpload opts then notify w deploymentConfig UploadSkipped
      else succeed ())"

text \<open>The type of the strategy dispatch the command calls:
  \<open>deploymentService.deploy(config.service, deploymentConfig, dryRun, gitHash, config)\<close>.\<close>

type_synonym strategy =
  "service_info \<Rightarrow> deployment_config \<Rightarrow> bool \<Rightarrow> string option \<Rightarrow> full_config option \<Rightarrow>
   deployment_result act"

definition deploy_phase ::
  "world \<Rightarrow> strategy \<Rightarrow> full_config \<Rightarrow> deployment_config \<Rightarrow> options \<Rightarrow> string \<Rightarrow>
   string option \<Rightarrow> unit act" where
  "deploy_phase w deploy_fn config deploymentConfig opts gitHash builtHash =
     and_then
       (if \<not> opt_dryRun opts then
          (if dtype (dc_deployment deploymentConfig) = ''service'' then
             notify w deploymentConfig PodsRestarting
           else if dtype (dc_deployment deploymentConfig) = ''web'' then
             notify w deploymentConfig WebDeploying
           else succeed ())
        else succeed ()) (\<lambda>_.
     and_then (deploy_fn (fc_service config) deploymentConfig (opt_dryRun opts)
                 (Some (str_or builtHash gitHash)) (Some config)) (\<lambda>deployResult.
     and_then
       (if (case res_podCount deployResult of Some (Some n) \<Rightarrow> 0 < n | _ \<Rightarrow> False) then
          notify w deploymentConfig PodsReady
        else if res_deployedFiles deployResult \<noteq> None then
          notify w deploymentConfig WebDeployed
        else succeed ()) (\<lambda>_.
     and_then (notify w deploymentConfig DeploySuccess) (\<lambda>_.
     if builtHash \<noteq> None \<and>
        (case fc_build config of None \<Rightarrow> False | Some b \<Rightarrow> cleanupContainer b) then
       and_then (exec w Invoke_builder_cleanup) (\<lambda>_. notify w deploymentConfig Cleanup)
     else succeed ()))))"

text \<open>
  The action of \<open>deploy <environment>\<close> once the configuration is loaded.  \<open>Inr ()\<close> is
  the normal return; \<open>Inl\<close> is the error that makes the process exit with status 1, after
  the \<open>deployError\<close> notification.
\<close>

definition deploy_command ::
  "world \<Rightarrow> host \<Rightarrow> strategy \<Rightarrow> full_config \<Rightarrow> string \<Rightarrow> options \<Rightarrow> unit act" where
  "deploy_command w h deploy_fn loaded env opts =
     (let config =
            (case opt_product opts of
               None \<Rightarrow> loaded
             | Some p \<Rightarrow>
                 if p = [] then loaded
                 else loaded \<lparr> fc_service := (fc_service loaded) \<lparr> svc_product := p \<rparr> \<rparr>)
      in case getDeploymentConfig config env of
           Inl e \<Rightarrow> throw e
         | Inr deploymentConfig \<Rightarrow>
             try_catch
               (and_then (if opt_dryRun opts then notify w deploymentConfig DryRun
                          else succeed ()) (\<lambda>_.
                and_then (notify w deploymentConfig DeployStart) (\<lambda>_.
                and_then (git_revision w h) (\<lambda>gitHash.
                and_then (build_phase w config deploymentConfig opts) (\<lambda>builtHash.
                and_then (upload_phase w deploymentConfig opts) (\<lambda>_.
                deploy_phase w deploy_fn config deploymentConfig opts gitHash builtHash))))))
               (\<lambda>error. and_then (notify w deploymentConfig DeployError) (\<lambda>_. throw error)))"

section \<open>Properties of traces\<close>

text \<open>\<open>extends_with P m\<close>: whatever the trace before, \<open>m\<close> only appends calls, and every
  call it appends satisfies \<open>P\<close>.\<close>

definition extends_with :: "(call \<Rightarrow> bool) \<Rightarrow> 'a act \<Rightarrow> bool" where
  "extends_with P m = (\<forall>tr. \<exists>new. snd (m tr) = tr @ new \<and> list_all P new)"

text \<open>The time spent in the timers of a trace, in milliseconds.\<close>

fun sleep_total :: "call list \<Rightarrow> nat" where
  "sleep_total [] = 0"
| "sleep_total (Sleep d # cs) = d + sleep_total cs"
| "sleep_total (c # cs) = sleep_total cs"

text \<open>A call other than the rollback of the deployment.\<close>

definition undo_free :: "string \<Rightarrow> string \<Rightarrow> call \<Rightarrow> bool" where
  "undo_free serviceName ns c = (c \<noteq> rollout_undo serviceName ns)"

text \<open>\<open>returns_with P m\<close>: from every trace, \<open>m\<close> returns a value that satisfies \<open>P\<close>;
  \<open>fails_with e m\<close>: from every trace, \<open>m\<close> throws \<open>e\<close>.\<close>

definition returns_with :: "('a \<Rightarrow> bool) \<Rightarrow> 'a act \<Rightarrow> bool" where
  "returns_with P m = (\<forall>tr. \<exists>x tr'. m tr = (Inr x, tr') \<and> P x)"

definition fails_with :: "err \<Rightarrow> 'a act \<Rightarrow> bool" where
  "fails_with e m = (\<forall>tr. \<exists>tr'. m tr = (Inl e, tr'))"

text \<open>The command that reads the condition of the migration job.\<close>

definition job_status_query :: "string \<Rightarrow> string \<Rightarrow> call" where
  "job_status_query jobName ns =
     Exec Cluster_cli (''kubectl get job '' @ jobName @ '' -n '' @ ns @
                       '' -o jsonpath='{.status.conditions[0].type}'' @ sq)"

text \<open>
  A run in which nothing fails but the health check: every call other than the rollback
  returns, the migration job reports \<open>Complete\<close>, and no answer of the health endpoint
  parses to the status \<open>healthy\<close>.  The rollback itself may succeed or fail.
\<close>

definition only_health_fails :: "world \<Rightarrow> host \<Rightarrow> string \<Rightarrow> string \<Rightarrow> bool" where
  "only_health_fails w h serviceName ns =
     ((\<forall>tr c. undo_free serviceName ns c \<longrightarrow> (\<exists>out. w tr c = Returns out)) \<and>
      (\<forall>tr jobName out. w tr (job_status_query jobName ns) = Returns out \<longrightarrow>
                          js_trim out = ''Complete'') \<and>
      (\<forall>s. json_parse_health h s \<noteq> Json_status (Some ''healthy'')))"

text \<open>A call that is not a timer, or a timer of 10 seconds.\<close>

definition ten_second_sleep :: "call \<Rightarrow> bool" where
  "ten_second_sleep c = (case c of Sleep d \<Rightarrow> d = 10000 | _ \<Rightarrow> True)"

text \<open>\<open>returns_only P m\<close>: whenever \<open>m\<close> returns a value, the value satisfies \<open>P\<close>.\<close>

definition returns_only :: "('a \<Rightarrow> bool) \<Rightarrow> 'a act \<Rightarrow> bool" where
  "returns_only P m = (\<forall>tr x tr'. m tr = (Inr x, tr') \<longrightarrow> P x)"







text \<open>The webhook call that \<open>notify\<close> makes for an event: none when the event or all
  notifications are switched off, or when no webhook is configured.\<close>

definition notified :: "deployment_config \<Rightarrow> webhook_event \<Rightarrow> call list" where
  "notified deploymentConfig event =
     (case notifications deploymentConfig of
        None \<Rightarrow> []
      | Some cfg \<Rightarrow>
          if event_enabled (Some cfg) event \<and> truthy_str (webhook cfg)
          then [Post_webhook (str_or (webhook cfg) []) event] else [])"

definition is_builder_call :: "call \<Rightarrow> bool" where
  "is_builder_call c = (case c of Invoke_builder b \<Rightarrow> True | _ \<Rightarrow> False)"

text \<open>The deployment types of the configuration schema.\<close>

definition schema_types :: "string list" where
  "schema_types = [''lambda-zip'', ''container'', ''web'', ''npm'', ''dockerhub'']"


section \<open>Example inputs\<close>

text \<open>A host, a world in which every call returns empty output, and three hooks, used to
  evaluate the services on concrete inputs.\<close>

definition example_host :: host where
  "example_host =
     \<lparr> cwd = ''/work'', now = 1700000000000, iso_time = ''2024-01-01T00:00:00.000Z'',
       build_ms = 1200, deploy_ms = 3400,
       file_exists = (\<lambda>p. True), read_file = (\<lambda>p. Returns ''data''),
       glob_files = (\<lambda>d. Some [''index.html'', ''a.js'', ''b.css'']),
       env_var = (\<lambda>v. None),
       path_join = (\<lambda>ps. foldr (\<lambda>a b. if b = [] then a else a @ ''/'' @ b) ps []),
       path_resolve = (\<lambda>p. ''/work/'' @ p), path_dirname = (\<lambda>p. p),
       yaml_load = (\<lambda>c. Inr []), json_parse_health = (\<lambda>s. Not_json),
       json_parse_package = (\<lambda>s. Bad_package) \<rparr>"

definition all_succeed :: world where
  "all_succeed = (\<lambda>tr c. Returns [])"

definition example_service :: service_info where
  "example_service = \<lparr> svc_name = ''email'', svc_product = ''novaskyn'' \<rparr>"

text \<open>A world in which the rollback fails, every other call returns \<open>Complete\<close>, and (with
  the example host) no health answer is JSON.\<close>

definition rollback_fails :: world where
  "rollback_fails =
     (\<lambda>tr c. if c = rollout_undo ''email'' ''prod'' then Fails ''no rollout history''
              else Returns ''Complete'')"

definition example_service_deployment :: service_deployment_config where
  "example_service_deployment =
     \<lparr> sd_container =
         \<lparr> registry = \<lparr> endpoint = ''ghcr.io'', repository = ''acme/email'', nodePort = None,
                        reg_namespace = ''container-registry'', username = None,
                        password = None \<rparr>,
           kubernetes = \<lparr> namespace = ''prod'', replicas = 2, useExistingManifests = True,
                          gitOpsPath = None, deploymentTimeout = None,
                          fluxNamespace = ''flux-system'' \<rparr>,
           gitops = None \<rparr> \<rparr>"

definition in_cluster_registry :: registry_config where
  "in_cluster_registry =
     \<lparr> endpoint = ''docker-registry.container-registry.svc.cluster.local:5000'',
       repository = ''email'', nodePort = None, reg_namespace = ''container-registry'',
       username = None, password = None \<rparr>"

definition query_fails :: world where
  "query_fails =
     (\<lambda>tr c. if c = nodeport_query ''container-registry''
              then Fails ''services docker-registry-nodeport not found''
              else Returns [])"

definition example_container :: container_config where
  "example_container =
     \<lparr> registry = in_cluster_registry,
       kubernetes = \<lparr> namespace = ''prod'', replicas = 2, useExistingManifests = True,
                      gitOpsPath = None, deploymentTimeout = None,
                      fluxNamespace = ''flux-system'' \<rparr>,
       gitops = None \<rparr>"

definition hook_A :: hook where
  "hook_A = \<lparr> hook_name = ''A'', hook_description = None, hook_command = ''make a'' \<rparr>"

definition hook_B :: hook where
  "hook_B = \<lparr> hook_name = ''B'', hook_description = None, hook_command = ''make b'' \<rparr>"

definition hook_C :: hook where
  "hook_C = \<lparr> hook_name = ''C'', hook_description = None, hook_command = ''make c'' \<rparr>"

definition hook_B_fails :: world where
  "hook_B_fails = (\<lambda>tr c. if c = Exec Hook_subprocess ''make b'' then Fails ''exit 1''
                           else Returns [])"

definition example_web :: web_config where
  "example_web =
     \<lparr> buildCommand = Some ''echo build'', buildDir = ''dist'', web_path = None,
       cloudfront = None,
       verification = Some \<lparr> v_enabled = None,
                             minioCheck = Some \<lparr> mc_enabled = None, minFiles = Some 5 \<rparr> \<rparr> \<rparr>"

definition example_deployment :: deployment where
  "example_deployment =
     \<lparr> dtype = ''web'', web = Some example_web, container = None, npm = None,
       dockerhub = None, service = None \<rparr>"

definition no_hooks :: hooks where
  "no_hooks = \<lparr> pre_build = None, post_build = None, pre_deploy = None, post_deploy = None \<rparr>"

definition example_config :: deployment_config where
  "example_config =
     \<lparr> environment = ''production'', dc_build = None, dc_global = None, dc_hooks = None,
       storage = \<lparr> bucket = ''site'' \<rparr>,
       dc_deployment = example_deployment \<lparr> dtype := ''lambda-zip'' \<rparr>,
       notifications = None \<rparr>"

definition example_notifications :: notification_config where
  "example_notifications =
     \<lparr> webhook = Some ''https://discord.example/hook'', n_enabled = None, n_events = None \<rparr>"

definition example_full_config :: full_config where
  "example_full_config =
     \<lparr> fc_service = example_service, fc_global = None, fc_build = None,
       deployments = [example_config \<lparr> notifications := Some example_notifications \<rparr>] \<rparr>"

definition example_options :: options where
  "example_options =
     \<lparr> opt_product = None, skipBuild = False, skipUpload = False, opt_dryRun = False \<rparr>"

section \<open>Verified properties\<close>

subsection \<open>How computations extend the trace\<close>

lemma extends_withI:
  "(\<And>tr. \<exists>new. snd (m tr) = tr @ new \<and> list_all P new) \<Longrightarrow> extends_with P m"
  by (simp add: extends_with_def)

lemma extends_withD:
  "extends_with P m \<Longrightarrow> m tr = (r, tr') \<Longrightarrow> \<exists>new. tr' = tr @ new \<and> list_all P new"
  unfolding extends_with_def by (metis snd_conv)

lemma extends_succeed [simp]: "extends_with P (succeed x)"
  by (simp add: extends_with_def succeed_def)

lemma extends_throw [simp]: "extends_with P (throw e)"
  by (simp add: extends_with_def throw_def)

lemma extends_exec: "P c \<Longrightarrow> extends_with P (exec w c)"
  by (auto simp: extends_with_def exec_def split: outcome.splits)

lemma extends_and_then:
  assumes "extends_with P m" and "\<And>x. extends_with P (f x)"
  shows "extends_with P (and_then m f)"
proof (rule extends_withI)
  fix tr
  obtain r tr1 where m: "m tr = (r, tr1)" by (cases "m tr")
  from extends_withD[OF assms(1) m] obtain n1 where n1: "tr1 = tr @ n1" "list_all P n1" by blast
  show "\<exists>new. snd (and_then m f tr) = tr @ new \<and> list_all P new"
  proof (cases r)
    case (Inl e)
    with m n1 show ?thesis by (auto simp: and_then_def)
  next
    case (Inr x)
    obtain r2 tr2 where f: "f x tr1 = (r2, tr2)" by (cases "f x tr1")
    from extends_withD[OF assms(2) f] obtain n2 where "tr2 = tr1 @ n2" "list_all P n2" by blast
    with m n1 Inr f show ?thesis by (auto simp: and_then_def)
  qed
qed

lemma extends_try_catch:
  assumes "extends_with P m" and "\<And>e. extends_with P (handler e)"
  shows "extends_with P (try_catch m handler)"
proof (rule extends_withI)
  fix tr
  obtain r tr1 where m: "m tr = (r, tr1)" by (cases "m tr")
  from extends_withD[OF assms(1) m] obtain n1 where n1: "tr1 = tr @ n1" "list_all P n1" by blast
  show "\<exists>new. snd (try_catch m handler tr) = tr @ new \<and> list_all P new"
  proof (cases r)
    case (Inr x)
    with m n1 show ?thesis by (auto simp: try_catch_def)
  next
    case (Inl e)
    obtain r2 tr2 where f: "handler e tr1 = (r2, tr2)" by (cases "handler e tr1")
    from extends_withD[OF assms(2) f] obtain n2 where "tr2 = tr1 @ n2" "list_all P n2" by blast
    with m n1 Inl f show ?thesis by (auto simp: try_catch_def)
  qed
qed

lemma extends_finally_do:
  assumes "extends_with P m" and "extends_with P c"
  shows "extends_with P (finally_do m c)"
proof (rule extends_withI)
  fix tr
  obtain r tr1 where m: "m tr = (r, tr1)" by (cases "m tr")
  from extends_withD[OF assms(1) m] obtain n1 where n1: "tr1 = tr @ n1" "list_all P n1" by blast
  obtain r2 tr2 where f: "c tr1 = (r2, tr2)" by (cases "c tr1")
  from extends_withD[OF assms(2) f] obtain n2 where "tr2 = tr1 @ n2" "list_all P n2" by blast
  with m n1 f show "\<exists>new. snd (finally_do m c tr) = tr @ new \<and> list_all P new"
    by (cases r2) (auto simp: finally_do_def)
qed

lemma extends_exec_all: "list_all P cs \<Longrightarrow> extends_with P (exec_all w cs)"
proof (rule extends_withI)
  fix tr
  assume "list_all P cs"
  then show "\<exists>new. snd (exec_all w cs tr) = tr @ new \<and> list_all P new"
  proof (induction cs arbitrary: tr)
    case Nil then show ?case by simp
  next
    case (Cons c cs)
    show ?case
    proof (cases "w tr c")
      case (Fails m)
      with Cons.prems show ?thesis by simp
    next
      case (Returns out)
      from Cons.prems have "list_all P cs" by simp
      from Cons.IH[OF this, of "tr @ [c]"] obtain new where
        "snd (exec_all w cs (tr @ [c])) = (tr @ [c]) @ new" "list_all P new" by blast
      with Returns Cons.prems show ?thesis by (intro exI[of _ "c # new"]) simp
    qed
  qed
qed



lemma health_attempt_cases:
  "health_attempt w h n ns tr = (r, tr') \<Longrightarrow>
     (\<not> r \<and> tr' = tr @ [get_pod_call n ns, Sleep retryDelay]) \<or>
     (\<not> r \<and> (\<exists>pod. tr' = tr @ [get_pod_call n ns, health_call pod ns, Sleep retryDelay])) \<or>
     (r \<and> (\<exists>pod. tr' = tr @ [get_pod_call n ns, health_call pod ns]))"
  unfolding health_attempt_def by (auto split: outcome.splits if_splits)


lemma extends_verify_loop:
  assumes "P (get_pod_call n ns)" "\<And>pod. P (health_call pod ns)" "P (Sleep retryDelay)"
  shows "extends_with P (verify_loop w h n ns i)"
proof (rule extends_withI)
  fix tr
  show "\<exists>new. snd (verify_loop w h n ns i tr) = tr @ new \<and> list_all P new"
  proof (induction "maxRetries - i" arbitrary: i tr)
    case 0
    then have "\<not> i < maxRetries" by simp
    then show ?case by (subst verify_loop.simps) simp
  next
    case (Suc k)
    then have lt: "i < maxRetries" by simp
    obtain r tr1 where att: "health_attempt w h n ns tr = (r, tr1)"
      by (cases "health_attempt w h n ns tr")
    from health_attempt_cases[OF att] assms obtain mid where mid: "tr1 = tr @ mid" "list_all P mid"
      by (elim disjE conjE exE) simp_all
    show ?case
    proof (cases r)
      case True
      with lt att mid show ?thesis by (subst verify_loop.simps) simp
    next
      case False
      from Suc.hyps(2) have "k = maxRetries - Suc i" by simp
      from Suc.hyps(1)[OF this, of tr1] obtain new where
        "snd (verify_loop w h n ns (Suc i) tr1) = tr1 @ new" "list_all P new" by auto
      with lt att mid False show ?thesis
        by (subst verify_loop.simps) (auto intro: exI[of _ "mid @ new"])
    qed
  qed
qed

lemma extends_if:
  "extends_with P x \<Longrightarrow> extends_with P y \<Longrightarrow> extends_with P (if b then x else y)"
  by simp

lemma extends_pause: "P (Sleep d) \<Longrightarrow> extends_with P (pause d)"
  by (simp add: extends_with_def pause_def)

subsection \<open>The descriptor patch\<close>


lemma set_newTag_idem: "set_newTag t (set_newTag t v) = set_newTag t v"
  by (cases v) simp_all

lemma image_matches_set_newTag:
  "image_matches e r (set_newTag t v) = image_matches e r v"
  by (cases v) (simp_all add: image_matches_def update_conv')

lemma set_newTag_not_null: "(set_newTag t v = Y_null) = (v = Y_null)"
  by (cases v) simp_all

lemma find_image_Some_bound: "find_image e r imgs = Inr (Some i) \<Longrightarrow> i < length imgs"
  by (induction imgs arbitrary: i) (auto split: if_splits sum.splits option.splits)

lemma find_image_Some_matches:
  "find_image e r imgs = Inr (Some i) \<Longrightarrow> image_matches e r (imgs ! i)"
  by (induction imgs arbitrary: i) (auto split: if_splits sum.splits option.splits)

lemma find_image_update:
  "find_image e r imgs = Inr (Some i) \<Longrightarrow>
   find_image e r (imgs[i := set_newTag t (imgs ! i)]) = Inr (Some i)"
proof (induction imgs arbitrary: i)
  case Nil
  then show ?case by simp
next
  case (Cons img imgs)
  show ?case
  proof (cases "image_matches e r img")
    case True
    with Cons.prems have "i = 0" by (auto split: if_splits)
    with True Cons.prems show ?thesis
      by (auto simp: image_matches_set_newTag set_newTag_not_null split: if_splits)
  next
    case False
    with Cons.prems obtain j where j: "i = Suc j" "find_image e r imgs = Inr (Some j)" "img \<noteq> Y_null"
      by (auto split: if_splits sum.splits option.splits)
    with False Cons.IH[OF j(2)] show ?thesis by simp
  qed
qed

lemma find_image_append_new:
  "find_image e r imgs = Inr None \<Longrightarrow>
   find_image e r (imgs @ [Y_map [(''name'', Y_str (e @ ''/'' @ r)), (''newTag'', Y_str t)]])
     = Inr (Some (length imgs))"
  by (induction imgs) (auto simp: image_matches_def split: if_splits sum.splits option.splits)

text \<open>The patch throws only on a malformed descriptor: it succeeds whenever \<open>images\<close> is
  absent or is a list without \<open>null\<close> entries.\<close>

lemma patch_descriptor_defined:
  assumes "map_of k ''images'' = None \<or>
           (\<exists>imgs. map_of k ''images'' = Some (Y_seq imgs) \<and> Y_null \<notin> set imgs)"
  shows "\<exists>k'. patch_descriptor e r t k = Inr k'"
proof -
  have total: "\<And>imgs. Y_null \<notin> set imgs \<Longrightarrow> \<exists>found. find_image e r imgs = Inr found"
  proof -
    fix imgs :: "yaml list"
    show "Y_null \<notin> set imgs \<Longrightarrow> \<exists>found. find_image e r imgs = Inr found"
      by (induction imgs) (auto split: option.splits)
  qed
  from assms show ?thesis
  proof
    assume "map_of k ''images'' = None"
    then show ?thesis
      unfolding patch_descriptor_def Let_def by (simp add: update_conv')
  next
    assume "\<exists>imgs. map_of k ''images'' = Some (Y_seq imgs) \<and> Y_null \<notin> set imgs"
    then obtain imgs where imgs: "map_of k ''images'' = Some (Y_seq imgs)" "Y_null \<notin> set imgs"
      by blast
    from total[OF imgs(2)] obtain found where "find_image e r imgs = Inr found" by blast
    with imgs(1) show ?thesis
      unfolding patch_descriptor_def Let_def by (cases found) simp_all
  qed
qed

lemma set_newTag_of_match:
  "image_matches e r v \<Longrightarrow>
   \<exists>m. set_newTag t v = Y_map m \<and> map_of m ''newTag'' = Some (Y_str t)"
  by (cases v) (simp_all add: image_matches_def update_conv')

text \<open>
  Claim C1.  The GitOps manifest patch is a function of the existing descriptor, the image
  name (registry endpoint and repository) and the new tag, and it is idempotent: whenever
  the patch of a descriptor succeeds, patching the result again with the same image name
  and tag returns that result unchanged.  The result lists an entry for the image, the one
  that the search of the second patch finds, and the tag of that entry is the new tag.
\<close>

theorem patch_descriptor_idempotent:
  assumes "patch_descriptor e r t k = Inr k'"
  shows "patch_descriptor e r t k' = Inr k' \<and>
         (\<exists>imgs i m. map_of k' ''images'' = Some (Y_seq imgs) \<and>
                      find_image e r imgs = Inr (Some i) \<and> i < length imgs \<and>
                      imgs ! i = Y_map m \<and> image_matches e r (imgs ! i) \<and>
                      map_of m ''newTag'' = Some (Y_str t))"
proof -
  define k1 where "k1 = (if (case map_of k ''images'' of None \<Rightarrow> False | Some v \<Rightarrow> truthy v)
                then k else AList.update ''images'' (Y_seq []) k)"
  from assms obtain imgs where imgs: "map_of k1 ''images'' = Some (Y_seq imgs)"
    unfolding patch_descriptor_def k1_def Let_def
    by (auto split: option.splits yaml.splits sum.splits if_splits)
  have res: "patch_descriptor e r t k =
      (case find_image e r imgs of
                Inl e \<Rightarrow> Inl e
              | Inr (Some i) \<Rightarrow>
                  Inr (AList.update ''images''
                         (Y_seq (imgs[i := set_newTag t (imgs ! i)])) k1)
              | Inr None \<Rightarrow>
                  Inr (AList.update ''images''
                         (Y_seq (imgs @ [Y_map [(''name'', Y_str (e @ ''/'' @ r)),
                                                (''newTag'', Y_str t)]])) k1))"
    using imgs unfolding patch_descriptor_def k1_def Let_def by simp
  have again: "\<And>new. patch_descriptor e r t (AList.update ''images'' (Y_seq new) k1) =
      (case find_image e r new of
                Inl e \<Rightarrow> Inl e
              | Inr (Some i) \<Rightarrow>
                  Inr (AList.update ''images''
                         (Y_seq (new[i := set_newTag t (new ! i)])) k1)
              | Inr None \<Rightarrow>
                  Inr (AList.update ''images''
                         (Y_seq (new @ [Y_map [(''name'', Y_str (e @ ''/'' @ r)),
                                                (''newTag'', Y_str t)]])) k1))"
    unfolding patch_descriptor_def Let_def by (simp add: update_conv' split: sum.splits option.splits)
  show ?thesis
  proof (cases "find_image e r imgs")
    case (Inl x)
    with res assms show ?thesis by simp
  next
    case (Inr found)
    show ?thesis
    proof (cases found)
      case None
      define entry where "entry = Y_map [(''name'', Y_str (e @ ''/'' @ r)), (''newTag'', Y_str t)]"
      from None Inr res assms have k': "k' = AList.update ''images'' (Y_seq (imgs @ [entry])) k1"
        by (simp add: entry_def)
      have found': "find_image e r (imgs @ [entry]) = Inr (Some (length imgs))"
        using Inr None find_image_append_new[of e r imgs t] by (simp add: entry_def)
      have idem: "patch_descriptor e r t k' = Inr k'"
        unfolding k' again using found' by (simp add: entry_def)
      have "map_of k' ''images'' = Some (Y_seq (imgs @ [entry]))"
        unfolding k' by (simp add: update_conv')
      moreover have "(imgs @ [entry]) ! length imgs = entry" by simp
      moreover have "image_matches e r entry" by (simp add: entry_def image_matches_def)
      moreover have "map_of [(''name'', Y_str (e @ ''/'' @ r)), (''newTag'', Y_str t)] ''newTag''
                       = Some (Y_str t)" by simp
      ultimately have "\<exists>imgs i m. map_of k' ''images'' = Some (Y_seq imgs) \<and>
                      find_image e r imgs = Inr (Some i) \<and> i < length imgs \<and>
                      imgs ! i = Y_map m \<and> image_matches e r (imgs ! i) \<and>
                      map_of m ''newTag'' = Some (Y_str t)"
        using found'
        apply (intro exI[of _ "imgs @ [entry]"] exI[of _ "length imgs"]
                     exI[of _ "[(''name'', Y_str (e @ ''/'' @ r)), (''newTag'', Y_str t)]"])
        by (simp add: entry_def)
      with idem show ?thesis by blast
    next
      case (Some i)
      define imgs' where "imgs' = imgs[i := set_newTag t (imgs ! i)]"
      from Some Inr res assms have k': "k' = AList.update ''images'' (Y_seq imgs') k1"
        by (simp add: imgs'_def)
      have i: "i < length imgs" using Inr Some find_image_Some_bound by simp
      have found': "find_image e r imgs' = Inr (Some i)"
        unfolding imgs'_def using Inr Some by (simp add: find_image_update)
      have idem: "patch_descriptor e r t k' = Inr k'"
        unfolding k' again using found' i
        by (simp add: imgs'_def set_newTag_idem)
      have "image_matches e r (imgs ! i)" using Inr Some find_image_Some_matches by simp
      from set_newTag_of_match[OF this, of t] obtain m
        where m: "set_newTag t (imgs ! i) = Y_map m" "map_of m ''newTag'' = Some (Y_str t)"
        by blast
      have at: "imgs' ! i = Y_map m" unfolding imgs'_def using i m(1) by simp
      have "map_of k' ''images'' = Some (Y_seq imgs')" unfolding k' by (simp add: update_conv')
      moreover have "i < length imgs'" using i by (simp add: imgs'_def)
      moreover have "image_matches e r (imgs' ! i)"
        using find_image_Some_matches[OF found'] .
      ultimately have "\<exists>imgs i m. map_of k' ''images'' = Some (Y_seq imgs) \<and>
                      find_image e r imgs = Inr (Some i) \<and> i < length imgs \<and>
                      imgs ! i = Y_map m \<and> image_matches e r (imgs ! i) \<and>
                      map_of m ''newTag'' = Some (Y_str t)"
        using found' at m(2) by blast
      with idem show ?thesis by blast
    qed
  qed
qed


theorem patch_descriptor_idempotent_witness:
  "patch_descriptor ''reg.local:5000'' ''email'' ''abc-1''
     [(''kind'', Y_str ''Kustomization''),
      (''images'', Y_seq [Y_map [(''name'', Y_str ''email''), (''newTag'', Y_str ''old'')]])]
   = Inr [(''kind'', Y_str ''Kustomization''),
          (''images'', Y_seq [Y_map [(''name'', Y_str ''email''), (''newTag'', Y_str ''abc-1'')]])]
   \<and>
   patch_descriptor ''reg.local:5000'' ''email'' ''abc-1''
     [(''kind'', Y_str ''Kustomization''),
      (''images'', Y_seq [Y_map [(''name'', Y_str ''email''), (''newTag'', Y_str ''abc-1'')]])]
   = Inr [(''kind'', Y_str ''Kustomization''),
          (''images'', Y_seq [Y_map [(''name'', Y_str ''email''), (''newTag'', Y_str ''abc-1'')]])]"
proof -
  have first: "patch_descriptor ''reg.local:5000'' ''email'' ''abc-1''
     [(''kind'', Y_str ''Kustomization''),
      (''images'', Y_seq [Y_map [(''name'', Y_str ''email''), (''newTag'', Y_str ''old'')]])]
   = Inr [(''kind'', Y_str ''Kustomization''),
          (''images'', Y_seq [Y_map [(''name'', Y_str ''email''), (''newTag'', Y_str ''abc-1'')]])]"
    by (simp add: patch_descriptor_def image_matches_def)
  from patch_descriptor_idempotent [OF first] first show ?thesis by simp
qed

subsection \<open>The hook runner\<close>

lemma run_hooks_skip:
  "k \<le> length hs \<Longrightarrow>
   (\<forall>j<k. \<exists>out. w (tr @ map hook_call (take j hs)) (hook_call (hs ! j)) = Returns out) \<Longrightarrow>
   run_hooks w hs tr = run_hooks w (drop k hs) (tr @ map hook_call (take k hs))"
proof (induction hs arbitrary: tr k)
  case Nil
  then show ?case by simp
next
  case (Cons a hs)
  show ?case
  proof (cases k)
    case 0
    then show ?thesis by simp
  next
    case (Suc k')
    with Cons.prems have first: "\<exists>out. w tr (hook_call a) = Returns out"
      by (auto dest: spec[of _ 0])
    have rest: "\<forall>j<k'. \<exists>out. w ((tr @ [hook_call a]) @ map hook_call (take j hs)) (hook_call (hs ! j)) = Returns out"
    proof (intro allI impI)
      fix j assume "j < k'"
      with Suc have "Suc j < k" by simp
      with Cons.prems(2) show "\<exists>out. w ((tr @ [hook_call a]) @ map hook_call (take j hs)) (hook_call (hs ! j)) = Returns out"
        by (auto dest!: spec[of _ "Suc j"])
    qed
    from Suc Cons.prems have "k' \<le> length hs" by simp
    from Cons.IH[OF this rest] first Suc show ?thesis by auto
  qed
qed

lemma run_hooks_all_succeed:
  assumes "\<forall>j<length hs. \<exists>out. w (tr @ map hook_call (take j hs)) (hook_call (hs ! j)) = Returns out"
  shows "run_hooks w hs tr = (Inr (), tr @ map hook_call hs)"
  using run_hooks_skip[of "length hs" hs w tr] assms by simp

lemma run_hooks_first_failure:
  assumes "i < length hs"
      and "\<forall>j<i. \<exists>out. w (tr @ map hook_call (take j hs)) (hook_call (hs ! j)) = Returns out"
      and "w (tr @ map hook_call (take i hs)) (hook_call (hs ! i)) = Fails m"
  shows "run_hooks w hs tr =
           (Inl (Error (''Hook '' @ hook_name (hs ! i) @ '' failed: '' @ m)),
            tr @ map hook_call (take (Suc i) hs))"
proof -
  from assms(1) have d: "drop i hs = hs ! i # drop (Suc i) hs"
    by (simp add: Cons_nth_drop_Suc)
  from assms(1) have "i \<le> length hs" by simp
  from run_hooks_skip[OF this assms(2)] have
    "run_hooks w hs tr = run_hooks w (drop i hs) (tr @ map hook_call (take i hs))" .
  also have "\<dots> = (Inl (Error (''Hook '' @ hook_name (hs ! i) @ '' failed: '' @ m)),
            (tr @ map hook_call (take i hs)) @ [hook_call (hs ! i)])"
    unfolding d using assms(3) by simp
  finally show ?thesis using assms(1) by (simp add: take_Suc_conv_app_nth)
qed

text \<open>
  Claim C3.  The hook runner executes the hooks of a list strictly in list order: when
  every command succeeds it has run all of them, one after the other.  When hook \<open>i\<close> is
  the first whose command fails, it has executed exactly the hooks \<open>0, ..., i\<close>, in list
  order, and raises \<open>Hook <name> failed\<close>; no later hook runs.  The error ends whatever
  is sequenced after the runner, and in \<open>deployWeb\<close> a failing \<open>pre_deploy\<close> hook means that
  neither the web deployment nor the \<open>post_deploy\<close> hooks run.
\<close>

theorem hooks_run_in_order_and_stop:
  "((\<forall>j<length hs. \<exists>out. w (tr @ map hook_call (take j hs)) (hook_call (hs ! j)) = Returns out)
      \<longrightarrow> executeHooks w hs phase tr = (Inr (), tr @ map hook_call hs))
   \<and>
   (i < length hs \<and>
    (\<forall>j<i. \<exists>out. w (tr @ map hook_call (take j hs)) (hook_call (hs ! j)) = Returns out) \<and>
    w (tr @ map hook_call (take i hs)) (hook_call (hs ! i)) = Fails m
      \<longrightarrow> executeHooks w hs phase tr =
             (Inl (Error (''Hook '' @ hook_name (hs ! i) @ '' failed: '' @ m)),
              tr @ map hook_call (take (Suc i) hs))
          \<and> and_then (executeHooks w hs phase) later tr =
             (Inl (Error (''Hook '' @ hook_name (hs ! i) @ '' failed: '' @ m)),
              tr @ map hook_call (take (Suc i) hs))
          \<and> (web dep = Some webConfig \<and> phase_of pre_deploy hks = Some hs \<longrightarrow>
                deployWeb w h svc stor dep hks dryRun tr =
                  (Inl (Error (''Hook '' @ hook_name (hs ! i) @ '' failed: '' @ m)),
                   tr @ map hook_call (take (Suc i) hs))))"
proof (intro conjI impI)
  assume "\<forall>j<length hs. \<exists>out. w (tr @ map hook_call (take j hs)) (hook_call (hs ! j)) = Returns out"
  from run_hooks_all_succeed[OF this]
  show "executeHooks w hs phase tr = (Inr (), tr @ map hook_call hs)"
    by (simp add: executeHooks_def succeed_def)
next
  assume fails: "i < length hs \<and>
    (\<forall>j<i. \<exists>out. w (tr @ map hook_call (take j hs)) (hook_call (hs ! j)) = Returns out) \<and>
    w (tr @ map hook_call (take i hs)) (hook_call (hs ! i)) = Fails m"
  then have ne: "hs \<noteq> []" by auto
  from fails have run: "run_hooks w hs tr =
           (Inl (Error (''Hook '' @ hook_name (hs ! i) @ '' failed: '' @ m)),
            tr @ map hook_call (take (Suc i) hs))"
    using run_hooks_first_failure[of i hs w tr m] by blast
  have a: "executeHooks w hs phase tr =
           (Inl (Error (''Hook '' @ hook_name (hs ! i) @ '' failed: '' @ m)),
            tr @ map hook_call (take (Suc i) hs))" for phase
    using ne run by (simp add: executeHooks_def)
  show "executeHooks w hs phase tr =
           (Inl (Error (''Hook '' @ hook_name (hs ! i) @ '' failed: '' @ m)),
            tr @ map hook_call (take (Suc i) hs))"
    using a .
  show "and_then (executeHooks w hs phase) later tr =
           (Inl (Error (''Hook '' @ hook_name (hs ! i) @ '' failed: '' @ m)),
            tr @ map hook_call (take (Suc i) hs))"
    using a by (simp add: and_then_def)
  assume "web dep = Some webConfig \<and> phase_of pre_deploy hks = Some hs"
  then show "deployWeb w h svc stor dep hks dryRun tr =
                  (Inl (Error (''Hook '' @ hook_name (hs ! i) @ '' failed: '' @ m)),
                   tr @ map hook_call (take (Suc i) hs))"
    using a by (simp add: and_then_def deployWeb_def run_phase_def)
qed

theorem hooks_run_in_order_and_stop_witness:
  "executeHooks all_succeed [hook_A, hook_B, hook_C] ''pre-deployment'' [] =
     (Inr (),
      [Exec Hook_subprocess ''make a'', Exec Hook_subprocess ''make b'',
       Exec Hook_subprocess ''make c''])
   \<and> executeHooks hook_B_fails [hook_A, hook_B, hook_C] ''pre-deployment'' [] =
     (Inl (Error ''Hook B failed: exit 1''),
      [Exec Hook_subprocess ''make a'', Exec Hook_subprocess ''make b''])
   \<and> deployWeb hook_B_fails example_host example_service \<lparr> bucket = ''site'' \<rparr>
       example_deployment (Some (no_hooks \<lparr> pre_deploy := Some [hook_A, hook_B, hook_C] \<rparr>))
       False [] =
     (Inl (Error ''Hook B failed: exit 1''),
      [Exec Hook_subprocess ''make a'', Exec Hook_subprocess ''make b''])"
proof -
  have ok: "executeHooks all_succeed [hook_A, hook_B, hook_C] ''pre-deployment'' [] =
     (Inr (),
      [Exec Hook_subprocess ''make a'', Exec Hook_subprocess ''make b'',
       Exec Hook_subprocess ''make c''])"
    using hooks_run_in_order_and_stop [where hs = "[hook_A, hook_B, hook_C]" and w = all_succeed
        and tr = "[]" and phase = "''pre-deployment''", THEN conjunct1]
    by (simp add: all_succeed_def hook_A_def hook_B_def hook_C_def hook_call_def)
  have stop: "executeHooks hook_B_fails [hook_A, hook_B, hook_C] ''pre-deployment'' [] =
     (Inl (Error ''Hook B failed: exit 1''),
      [Exec Hook_subprocess ''make a'', Exec Hook_subprocess ''make b''])
   \<and> deployWeb hook_B_fails example_host example_service \<lparr> bucket = ''site'' \<rparr>
       example_deployment (Some (no_hooks \<lparr> pre_deploy := Some [hook_A, hook_B, hook_C] \<rparr>))
       False [] =
     (Inl (Error ''Hook B failed: exit 1''),
      [Exec Hook_subprocess ''make a'', Exec Hook_subprocess ''make b''])"
    using hooks_run_in_order_and_stop [where i = 1 and hs = "[hook_A, hook_B, hook_C]"
      and w = hook_B_fails and tr = "[]" and m = "''exit 1''" and dep = example_deployment
      and webConfig = example_web
      and hks = "Some (no_hooks \<lparr> pre_deploy := Some [hook_A, hook_B, hook_C] \<rparr>)"
      and phase = "''pre-deployment''" and later = succeed and h = example_host
      and svc = example_service and stor = "\<lparr> bucket = ''site'' \<rparr>" and dryRun = False,
      THEN conjunct2]
    by (simp add: hook_B_fails_def hook_A_def hook_B_def hook_C_def hook_call_def
      example_deployment_def no_hooks_def phase_of_def)
  from ok stop show ?thesis by blast
qed

subsection \<open>The static-site strategy\<close>

lemma upload_files_all_succeed:
  assumes "\<forall>f\<in>set fs. \<exists>content. read_file h (path_join h [dir, f]) = Returns content"
      and "\<forall>f\<in>set fs. \<forall>tr. \<exists>out. w tr (Put_object bkt (s3_key prefix f)) = Returns out"
  shows "upload_files w h False bkt prefix dir fs n tr =
           (Inr (n + length fs), tr @ map (\<lambda>f. Put_object bkt (s3_key prefix f)) fs)"
  using assms
proof (induction fs arbitrary: n tr)
  case Nil
  then show ?case by simp
next
  case (Cons f fs)
  from Cons.prems(1) obtain content where r: "read_file h (path_join h [dir, f]) = Returns content"
    by auto
  from Cons.prems(2) obtain out where p: "w tr (Put_object bkt (s3_key prefix f)) = Returns out"
    by (auto dest!: bspec[of _ _ f])
  from Cons.prems have "\<forall>f\<in>set fs. \<exists>content. read_file h (path_join h [dir, f]) = Returns content"
    "\<forall>f\<in>set fs. \<forall>tr. \<exists>out. w tr (Put_object bkt (s3_key prefix f)) = Returns out"
    by simp_all
  from Cons.IH[OF this] r p show ?case by simp
qed

lemma web_build_succeeds:
  assumes "\<forall>cmd tr. buildCommand webConfig = Some cmd \<longrightarrow> (\<exists>out. w tr (Exec Build_tool cmd) = Returns out)"
  shows "\<exists>bt calls. web_build w h webConfig False tr = (Inr bt, tr @ calls)"
proof (cases "buildCommand webConfig")
  case None
  then show ?thesis by (simp add: web_build_def succeed_def)
next
  case (Some cmd)
  with assms obtain out where "w tr (Exec Build_tool cmd) = Returns out" by blast
  with Some show ?thesis
    by (simp add: web_build_def succeed_def try_catch_def and_then_def exec_def)
qed

lemma web_invalidate_never_throws:
  "\<exists>inv calls. web_invalidate w webConfig dryRun tr = (Inr inv, tr @ calls)"
  by (auto simp: web_invalidate_def succeed_def try_catch_def and_then_def exec_def
           split: option.splits outcome.splits)

lemma web_deploy_outcome:
  assumes build: "\<forall>cmd tr. buildCommand webConfig = Some cmd \<longrightarrow> (\<exists>out. w tr (Exec Build_tool cmd) = Returns out)"
      and scan: "glob_files h (path_resolve h (buildDir webConfig)) = Some files"
      and reads: "\<forall>file\<in>set files. \<exists>content.
                    read_file h (path_join h [path_resolve h (buildDir webConfig), file]) = Returns content"
      and puts: "\<forall>file\<in>set files. \<forall>tr. \<exists>out.
                    w tr (Put_object (bucket s3Config) (s3_key (web_path webConfig) file)) = Returns out"
  shows "\<exists>bt inv before after.
           WebDeploymentService_deploy w h serviceInfo s3Config webConfig False tr =
             (if verification_enabled webConfig \<and> minio_check_enabled webConfig \<and>
                 int (length files) < min_files webConfig
              then Inl (Error (''Verification failed: Only '' @ show_nat (length files) @
                               '' files deployed, expected at least '' @
                               show_int (min_files webConfig)))
              else Inr \<lparr> deployedFiles = length files, invalidationId = inv,
                         buildTime = bt, deployTime = deploy_ms h \<rparr>,
              tr @ before @
              map (\<lambda>file. Put_object (bucket s3Config) (s3_key (web_path webConfig) file)) files @
              after)"
proof -
  from web_build_succeeds[OF build] obtain bt before where
    b: "web_build w h webConfig False tr = (Inr bt, tr @ before)" by blast
  have s: "web_scan h webConfig False (tr @ before) = (Inr files, tr @ before)"
    using scan by (simp add: web_scan_def succeed_def)
  have u: "upload_files w h False (bucket s3Config) (web_path webConfig)
             (path_resolve h (buildDir webConfig)) files 0 (tr @ before) =
           (Inr (length files), tr @ before @
              map (\<lambda>file. Put_object (bucket s3Config) (s3_key (web_path webConfig) file)) files)"
    using upload_files_all_succeed[OF reads puts, of 0] by simp
  obtain inv after where
    i: "web_invalidate w webConfig False (tr @ before @
              map (\<lambda>file. Put_object (bucket s3Config) (s3_key (web_path webConfig) file)) files) =
          (Inr inv, tr @ before @
              map (\<lambda>file. Put_object (bucket s3Config) (s3_key (web_path webConfig) file)) files @ after)"
    using web_invalidate_never_throws[of w webConfig False "tr @ before @
              map (\<lambda>file. Put_object (bucket s3Config) (s3_key (web_path webConfig) file)) files"]
    by auto
  show ?thesis
    apply (rule exI[of _ bt], rule exI[of _ inv], rule exI[of _ before], rule exI[of _ after])
    unfolding WebDeploymentService_deploy_def
    apply (simp add: and_then_def b s u i)
    apply (simp add: web_verify_def throw_def succeed_def)
    done
qed

lemma min_files_configured:
  "verification webConfig = Some v \<Longrightarrow> minioCheck v = Some mc \<Longrightarrow> minFiles mc = Some 5 \<Longrightarrow>
   min_files webConfig = 5"
  by (simp add: min_files_def)

lemma checks_enabled:
  "verification webConfig = Some v \<Longrightarrow> not_false (v_enabled v) \<Longrightarrow> minioCheck v = Some mc \<Longrightarrow>
   not_false (mc_enabled mc) \<Longrightarrow> verification_enabled webConfig \<and> minio_check_enabled webConfig"
  by (simp add: verification_enabled_def minio_check_enabled_def)

lemma show_nat_3: "show_nat 3 = ''3''"
  by (simp add: show_nat.simps digit_char_def)

lemma show_int_5: "show_int 5 = ''5''"
  by (simp add: show_int_def show_nat.simps digit_char_def)

text \<open>
  Claim C7.  A web deployment that is not a dry run, with
  \<open>verification.minioCheck.minFiles = 5\<close> and the verification flags not switched off,
  whose build, file reads and uploads succeed: with 6 files in the build directory it
  returns a result with \<open>deployedFiles = 6\<close>; with 3 files it throws the verification
  error, and the trace holds the three uploads, which nothing undoes.
\<close>

theorem web_min_files_scenario:
  assumes "\<forall>cmd tr. buildCommand webConfig = Some cmd \<longrightarrow> (\<exists>out. w tr (Exec Build_tool cmd) = Returns out)"
      and "glob_files h (path_resolve h (buildDir webConfig)) = Some files"
      and "\<forall>file\<in>set files. \<exists>content.
             read_file h (path_join h [path_resolve h (buildDir webConfig), file]) = Returns content"
      and "\<forall>file\<in>set files. \<forall>tr. \<exists>out.
             w tr (Put_object (bucket s3Config) (s3_key (web_path webConfig) file)) = Returns out"
      and "verification webConfig = Some v" and "not_false (v_enabled v)"
      and "minioCheck v = Some mc" and "not_false (mc_enabled mc)" and "minFiles mc = Some 5"
  shows "(length files = 6 \<longrightarrow>
           (\<exists>r tr'. WebDeploymentService_deploy w h serviceInfo s3Config webConfig False tr = (Inr r, tr')
                    \<and> deployedFiles r = 6))
       \<and> (length files = 3 \<longrightarrow>
           (\<exists>before after.
              WebDeploymentService_deploy w h serviceInfo s3Config webConfig False tr =
                (Inl (Error ''Verification failed: Only 3 files deployed, expected at least 5''),
                 tr @ before @
                 map (\<lambda>file. Put_object (bucket s3Config) (s3_key (web_path webConfig) file)) files @
                 after)))"
proof -
  from web_deploy_outcome[OF assms(1-4), of serviceInfo tr] obtain bt inv before after where
    out: "WebDeploymentService_deploy w h serviceInfo s3Config webConfig False tr =
             (if verification_enabled webConfig \<and> minio_check_enabled webConfig \<and>
                 int (length files) < min_files webConfig
              then Inl (Error (''Verification failed: Only '' @ show_nat (length files) @
                               '' files deployed, expected at least '' @
                               show_int (min_files webConfig)))
              else Inr \<lparr> deployedFiles = length files, invalidationId = inv,
                         buildTime = bt, deployTime = deploy_ms h \<rparr>,
              tr @ before @
              map (\<lambda>file. Put_object (bucket s3Config) (s3_key (web_path webConfig) file)) files @
              after)" by blast
  note m = min_files_configured[OF assms(5,7,9)]
  note e = checks_enabled[OF assms(5,6,7,8)]
  have six: "length files = 6 \<Longrightarrow> ?thesis"
    using out m by auto
  have three: "length files = 3 \<Longrightarrow> ?thesis"
    using out m e by (auto simp: show_nat_3 show_int_5)
  show ?thesis
    using six three by (cases "length files = 6"; cases "length files = 3") auto
qed

lemma show_nat_small: "n < 5 \<Longrightarrow> show_nat n = [digit_char n]"
  by (simp add: show_nat.simps)

text \<open>
  Claim C9.  A web deployment that is not a dry run and has no verification
  configuration at all still runs the file-count check with the default minimum of 5:
  when its build, file reads and uploads succeed and fewer than 5 files were found, it
  throws the verification error after the uploads, which are all in the trace.
\<close>

theorem web_verification_defaults:
  assumes "\<forall>cmd tr. buildCommand webConfig = Some cmd \<longrightarrow> (\<exists>out. w tr (Exec Build_tool cmd) = Returns out)"
      and "glob_files h (path_resolve h (buildDir webConfig)) = Some files"
      and "\<forall>file\<in>set files. \<exists>content.
             read_file h (path_join h [path_resolve h (buildDir webConfig), file]) = Returns content"
      and "\<forall>file\<in>set files. \<forall>tr. \<exists>out.
             w tr (Put_object (bucket s3Config) (s3_key (web_path webConfig) file)) = Returns out"
      and "verification webConfig = None"
      and "length files < 5"
  shows "verification_enabled webConfig \<and> minio_check_enabled webConfig \<and> min_files webConfig = 5
       \<and> (\<exists>before after.
              WebDeploymentService_deploy w h serviceInfo s3Config webConfig False tr =
                (Inl (Error (''Verification failed: Only '' @ show_nat (length files) @
                             '' files deployed, expected at least 5'')),
                 tr @ before @
                 map (\<lambda>file. Put_object (bucket s3Config) (s3_key (web_path webConfig) file)) files @
                 after))"
proof -
  from web_deploy_outcome[OF assms(1-4), of serviceInfo tr] obtain bt inv before after where
    out: "WebDeploymentService_deploy w h serviceInfo s3Config webConfig False tr =
             (if verification_enabled webConfig \<and> minio_check_enabled webConfig \<and>
                 int (length files) < min_files webConfig
              then Inl (Error (''Verification failed: Only '' @ show_nat (length files) @
                               '' files deployed, expected at least '' @
                               show_int (min_files webConfig)))
              else Inr \<lparr> deployedFiles = length files, invalidationId = inv,
                         buildTime = bt, deployTime = deploy_ms h \<rparr>,
              tr @ before @
              map (\<lambda>file. Put_object (bucket s3Config) (s3_key (web_path webConfig) file)) files @
              after)" by blast
  have d: "verification_enabled webConfig" "minio_check_enabled webConfig" "min_files webConfig = 5"
    using assms(5) by (simp_all add: verification_enabled_def minio_check_enabled_def min_files_def)
  with out assms(6) show ?thesis by (auto simp: show_int_5)
qed

lemmas web_eval =
  WebDeploymentService_deploy_def web_build_def web_scan_def web_invalidate_def web_verify_def
  verification_enabled_def minio_check_enabled_def min_files_def and_then_def succeed_def
  throw_def try_catch_def exec_def not_false_def s3_key_def show_nat.simps show_int_def
  digit_char_def example_host_def all_succeed_def example_web_def

theorem web_min_files_scenario_witness:
  "WebDeploymentService_deploy all_succeed
     (example_host \<lparr> glob_files := (\<lambda>d. Some [''1'', ''2'', ''3'', ''4'', ''5'', ''6'']) \<rparr>)
     example_service \<lparr> bucket = ''site'' \<rparr> example_web False [] =
     (Inr \<lparr> deployedFiles = 6, invalidationId = None, buildTime = Some 1200, deployTime = 3400 \<rparr>,
      [Exec Build_tool ''echo build'', Put_object ''site'' ''1'', Put_object ''site'' ''2'',
       Put_object ''site'' ''3'', Put_object ''site'' ''4'', Put_object ''site'' ''5'',
       Put_object ''site'' ''6''])
   \<and> WebDeploymentService_deploy all_succeed example_host example_service \<lparr> bucket = ''site'' \<rparr>
       example_web False [] =
     (Inl (Error ''Verification failed: Only 3 files deployed, expected at least 5''),
      [Exec Build_tool ''echo build'', Put_object ''site'' ''index.html'',
       Put_object ''site'' ''a.js'', Put_object ''site'' ''b.css''])"
  using web_min_files_scenario [where w = all_succeed
      and h = "example_host \<lparr> glob_files := (\<lambda>d. Some [''1'', ''2'', ''3'', ''4'', ''5'', ''6'']) \<rparr>"
      and webConfig = example_web and s3Config = "\<lparr> bucket = ''site'' \<rparr>"
      and files = "[''1'', ''2'', ''3'', ''4'', ''5'', ''6'']"
      and v = "\<lparr> v_enabled = None, minioCheck = Some \<lparr> mc_enabled = None, minFiles = Some 5 \<rparr> \<rparr>"
      and mc = "\<lparr> mc_enabled = None, minFiles = Some 5 \<rparr>"
      and serviceInfo = example_service and tr = "[]"]
    web_min_files_scenario [where w = all_succeed and h = example_host
      and webConfig = example_web and s3Config = "\<lparr> bucket = ''site'' \<rparr>"
      and files = "[''index.html'', ''a.js'', ''b.css'']"
      and v = "\<lparr> v_enabled = None, minioCheck = Some \<lparr> mc_enabled = None, minFiles = Some 5 \<rparr> \<rparr>"
      and mc = "\<lparr> mc_enabled = None, minFiles = Some 5 \<rparr>"
      and serviceInfo = example_service and tr = "[]"]
  by (simp add: web_eval)

theorem web_verification_defaults_witness:
  "WebDeploymentService_deploy all_succeed example_host example_service \<lparr> bucket = ''site'' \<rparr>
       (example_web \<lparr> verification := None \<rparr>) False [] =
     (Inl (Error ''Verification failed: Only 3 files deployed, expected at least 5''),
      [Exec Build_tool ''echo build'', Put_object ''site'' ''index.html'',
       Put_object ''site'' ''a.js'', Put_object ''site'' ''b.css''])"
  using web_verification_defaults [where w = all_succeed and h = example_host
      and webConfig = "example_web \<lparr> verification := None \<rparr>"
      and s3Config = "\<lparr> bucket = ''site'' \<rparr>"
      and files = "[''index.html'', ''a.js'', ''b.css'']"
      and serviceInfo = example_service and tr = "[]"]
  by (simp add: web_eval)

subsection \<open>The managed-runtime strategy\<close>

lemma sleep_total_append: "sleep_total (xs @ ys) = sleep_total xs + sleep_total ys"
  by (induction xs rule: sleep_total.induct) simp_all

lemma get_pod_not_health: "get_pod_call n ns \<noteq> health_call pod ns'"
  by (simp add: get_pod_call_def health_call_def)

lemma health_attempt_count:
  assumes "health_attempt w h n ns tr = (r, tr')"
  shows "\<exists>new. tr' = tr @ new \<and> count_list new (get_pod_call n ns) = 1 \<and> length new \<le> 3 \<and>
               sleep_total new = (if r then 0 else retryDelay)"
  using health_attempt_cases[OF assms]
  by (elim disjE conjE exE)
     (auto simp: get_pod_not_health get_pod_call_def health_call_def)

lemma health_attempt_never_healthy:
  assumes "\<forall>s. json_parse_health h s \<noteq> Json_status (Some ''healthy'')"
  shows "fst (health_attempt w h n ns tr) = False"
  using assms unfolding health_attempt_def by (auto split: outcome.splits)

lemma verify_loop_bounded:
  "\<exists>r new. verify_loop w h n ns i tr = (Inr r, tr @ new) \<and>
       count_list new (get_pod_call n ns) \<le> maxRetries - i \<and>
       sleep_total new \<le> (maxRetries - i) * retryDelay \<and>
       length new \<le> 3 * (maxRetries - i) \<and>
       (\<not> r \<longrightarrow> count_list new (get_pod_call n ns) = maxRetries - i \<and>
                 sleep_total new = (maxRetries - i) * retryDelay)"
proof (induction "maxRetries - i" arbitrary: i tr)
  case 0
  then have ge: "\<not> i < maxRetries" by simp
  then have "verify_loop w h n ns i tr = (Inr False, tr @ [])"
    by (subst verify_loop.simps) simp
  with ge show ?case
    by (intro exI[of _ False] exI[of _ "[]"]) simp
next
  case (Suc k)
  then have lt: "i < maxRetries" by simp
  obtain r tr1 where att: "health_attempt w h n ns tr = (r, tr1)"
    by (cases "health_attempt w h n ns tr")
  from health_attempt_count[OF att] obtain mid where mid: "tr1 = tr @ mid"
    "count_list mid (get_pod_call n ns) = 1" "length mid \<le> 3"
    "sleep_total mid = (if r then 0 else retryDelay)" by blast
  show ?case
  proof (cases r)
    case True
    have "verify_loop w h n ns i tr = (Inr True, tr @ mid)"
      using lt att mid True by (subst verify_loop.simps) simp
    with mid True lt show ?thesis
      by (intro exI[of _ True] exI[of _ mid]) auto
  next
    case False
    from Suc.hyps(2) have k: "k = maxRetries - Suc i" by simp
    from Suc.hyps(1)[OF k, of tr1] obtain r2 new where new:
      "verify_loop w h n ns (Suc i) tr1 = (Inr r2, tr1 @ new)"
      "count_list new (get_pod_call n ns) \<le> maxRetries - Suc i"
      "sleep_total new \<le> (maxRetries - Suc i) * retryDelay"
      "length new \<le> 3 * (maxRetries - Suc i)"
      "\<not> r2 \<longrightarrow> count_list new (get_pod_call n ns) = maxRetries - Suc i \<and>
                 sleep_total new = (maxRetries - Suc i) * retryDelay"
      by blast
    have eq: "verify_loop w h n ns i tr = (Inr r2, tr @ (mid @ new))"
      using lt att mid False new(1) by (subst verify_loop.simps) simp
    have m: "maxRetries - i = Suc (maxRetries - Suc i)" using lt by simp
    show ?thesis
      apply (rule exI[of _ r2], rule exI[of _ "mid @ new"])
      using eq mid new False
      by (simp add: sleep_total_append m)
  qed
qed

lemma verify_loop_never_healthy:
  assumes "\<forall>s. json_parse_health h s \<noteq> Json_status (Some ''healthy'')"
  shows "fst (verify_loop w h n ns i tr) = Inr False"
proof (induction "maxRetries - i" arbitrary: i tr)
  case 0
  then have "\<not> i < maxRetries" by simp
  then show ?case by (subst verify_loop.simps) simp
next
  case (Suc k)
  then have lt: "i < maxRetries" by simp
  obtain r tr1 where att: "health_attempt w h n ns tr = (r, tr1)"
    by (cases "health_attempt w h n ns tr")
  with health_attempt_never_healthy[OF assms, of w n ns tr] have "\<not> r" by simp
  from Suc.hyps(2) have k: "k = maxRetries - Suc i" by simp
  from Suc.hyps(1)[OF k, of tr1] lt att \<open>\<not> r\<close> show ?case
    by (subst verify_loop.simps) simp
qed

lemmas extends_intros =
  extends_and_then extends_try_catch extends_finally_do extends_exec extends_exec_all
  extends_succeed extends_throw extends_if extends_pause

lemma extends_runMigrationJob:
  "extends_with (undo_free n ns) (runMigrationJob w h jobName ns')"
  unfolding runMigrationJob_def migration_steps_def
  by (intro extends_intros) (simp_all add: undo_free_def rollout_undo_def)

lemma extends_docker_login:
  "extends_with (undo_free n ns) (docker_login w reg)"
  unfolding docker_login_def
  by (intro extends_intros) (simp_all add: undo_free_def rollout_undo_def)

lemma extends_verifyHealth:
  "extends_with (undo_free n ns) (verifyHealth w h n' ns')"
  unfolding verifyHealth_def
  by (rule extends_verify_loop)
     (simp_all add: undo_free_def rollout_undo_def get_pod_call_def health_call_def)

lemma extends_service_steps:
  "extends_with (undo_free n ns) (service_steps w h svc sdc gitHash dc)"
  unfolding service_steps_def Let_def buildDockerImage_def
  by (intro extends_intros extends_docker_login extends_runMigrationJob extends_verifyHealth)
     (simp_all add: undo_free_def rollout_undo_def)

lemma deploy_failure_shape:
  assumes "ServiceDeploymentService_deploy w h svc sdc gitHash False dc tr = (Inl e, tr')"
  shows "\<exists>new. service_steps w h svc sdc gitHash dc tr = (Inl e, tr @ new) \<and>
               tr' = tr @ new @ [rollout_undo (svc_name svc) (namespace (kubernetes (sd_container sdc)))] \<and>
               list_all (undo_free (svc_name svc) (namespace (kubernetes (sd_container sdc)))) new"
proof -
  obtain r tr1 where st: "service_steps w h svc sdc gitHash dc tr = (r, tr1)"
    by (cases "service_steps w h svc sdc gitHash dc tr")
  from extends_withD[OF extends_service_steps st] obtain new where
    new: "tr1 = tr @ new" "list_all (undo_free (svc_name svc) (namespace (kubernetes (sd_container sdc)))) new"
    by blast
  show ?thesis
  proof (cases r)
    case (Inr x)
    with assms st show ?thesis
      by (simp add: ServiceDeploymentService_deploy_def try_catch_def)
  next
    case (Inl e1)
    with assms st new show ?thesis
      by (auto simp: ServiceDeploymentService_deploy_def try_catch_def attempt_rollback_def
            and_then_def exec_def succeed_def throw_def split: outcome.splits)
  qed
qed

lemma returns_withI: "(\<And>tr. \<exists>x tr'. m tr = (Inr x, tr') \<and> P x) \<Longrightarrow> returns_with P m"
  by (simp add: returns_with_def)

lemma returns_succeed: "P x \<Longrightarrow> returns_with P (succeed x)"
  by (simp add: returns_with_def succeed_def)

lemma returns_exec:
  "(\<And>tr. \<exists>out. w tr c = Returns out \<and> P out) \<Longrightarrow> returns_with P (exec w c)"
  unfolding returns_with_def exec_def
  by (metis (mono_tags, lifting) outcome.simps(6))

lemma returns_exec_all:
  assumes "\<And>c tr. c \<in> set cs \<Longrightarrow> \<exists>out. w tr c = Returns out"
  shows "returns_with (\<lambda>_. True) (exec_all w cs)"
proof (rule returns_withI)
  fix tr
  from assms show "\<exists>x tr'. exec_all w cs tr = (Inr x, tr') \<and> True"
  proof (induction cs arbitrary: tr)
    case Nil
    then show ?case by simp
  next
    case (Cons c cs)
    from Cons.prems[of c tr] obtain out where "w tr c = Returns out" by auto
    moreover from Cons.IH[of "tr @ [c]"] Cons.prems
    have "\<exists>x tr'. exec_all w cs (tr @ [c]) = (Inr x, tr') \<and> True" by simp
    ultimately show ?case by simp
  qed
qed

lemma returns_and_then:
  assumes "returns_with Q m" and "\<And>x. Q x \<Longrightarrow> returns_with P (f x)"
  shows "returns_with P (and_then m f)"
proof (rule returns_withI)
  fix tr
  from assms(1) obtain x tr1 where m: "m tr = (Inr x, tr1)" "Q x"
    unfolding returns_with_def by blast
  from assms(2)[OF m(2)] obtain y tr2 where "f x tr1 = (Inr y, tr2)" "P y"
    unfolding returns_with_def by blast
  with m show "\<exists>x tr'. and_then m f tr = (Inr x, tr') \<and> P x"
    by (simp add: and_then_def)
qed

lemma fails_and_then:
  assumes "returns_with Q m" and "\<And>x. Q x \<Longrightarrow> fails_with e (f x)"
  shows "fails_with e (and_then m f)"
  unfolding fails_with_def
proof
  fix tr
  from assms(1) obtain x tr1 where m: "m tr = (Inr x, tr1)" "Q x"
    unfolding returns_with_def by blast
  from assms(2)[OF m(2)] obtain tr2 where "f x tr1 = (Inl e, tr2)"
    unfolding fails_with_def by blast
  with m show "\<exists>tr'. and_then m f tr = (Inl e, tr')"
    by (simp add: and_then_def)
qed

lemma fails_throw: "fails_with e (throw e)"
  by (simp add: fails_with_def throw_def)

lemma returns_try_catch: "returns_with P m \<Longrightarrow> returns_with P (try_catch m handler)"
  unfolding returns_with_def try_catch_def
  by (metis (mono_tags, lifting) old.sum.simps(6) prod.simps(2))

lemma returns_finally_do:
  assumes "returns_with P m" and "returns_with (\<lambda>_. True) c"
  shows "returns_with P (finally_do m c)"
proof (rule returns_withI)
  fix tr
  from assms(1) obtain x tr1 where m: "m tr = (Inr x, tr1)" "P x"
    unfolding returns_with_def by blast
  from assms(2) obtain u tr2 where "c tr1 = (Inr u, tr2)"
    unfolding returns_with_def by blast
  with m show "\<exists>x tr'. finally_do m c tr = (Inr x, tr') \<and> P x"
    by (simp add: finally_do_def)
qed

lemma returns_weaken: "returns_with P m \<Longrightarrow> (\<And>x. P x \<Longrightarrow> Q x) \<Longrightarrow> returns_with Q m"
  unfolding returns_with_def by blast

lemma returns_verifyHealth_false:
  assumes "\<forall>s. json_parse_health h s \<noteq> Json_status (Some ''healthy'')"
  shows "returns_with (\<lambda>r. \<not> r) (verifyHealth w h n ns)"
proof (rule returns_withI)
  fix tr
  from verify_loop_bounded[of w h n ns 0 tr] obtain r new where
    "verify_loop w h n ns 0 tr = (Inr r, tr @ new)" by blast
  moreover from verify_loop_never_healthy[OF assms, of w n ns 0 tr]
  have "fst (verify_loop w h n ns 0 tr) = Inr False" .
  ultimately show "\<exists>x tr'. verifyHealth w h n ns tr = (Inr x, tr') \<and> \<not> x"
    by (auto simp: verifyHealth_def)
qed


lemma returns_if:
  "(b \<Longrightarrow> returns_with P x) \<Longrightarrow> (\<not> b \<Longrightarrow> returns_with P y) \<Longrightarrow> returns_with P (if b then x else y)"
  by simp

lemma good_exec:
  assumes "only_health_fails w h n ns" and "undo_free n ns c"
  shows "returns_with (\<lambda>_. True) (exec w c)"
  using assms unfolding only_health_fails_def by (intro returns_exec) auto

lemma good_exec_all:
  assumes "only_health_fails w h n ns" and "list_all (undo_free n ns) cs"
  shows "returns_with (\<lambda>_. True) (exec_all w cs)"
  using assms unfolding only_health_fails_def
  by (intro returns_exec_all) (auto simp: list_all_iff)

lemma good_docker_login:
  assumes "only_health_fails w h n ns"
  shows "returns_with (\<lambda>_. True) (docker_login w reg)"
  unfolding docker_login_def
  by (intro returns_if returns_try_catch returns_and_then[where Q = "\<lambda>_. True"]
        good_exec[OF assms] returns_succeed)
     (simp_all add: undo_free_def rollout_undo_def)

lemma good_migration:
  assumes "only_health_fails w h n ns"
  shows "returns_with (\<lambda>r. r) (runMigrationJob w h jobName ns)"
proof -
  have status: "returns_with (\<lambda>out. js_trim out = ''Complete'')
                  (exec w (job_status_query jobName ns))"
  proof (rule returns_exec)
    fix tr
    have "undo_free n ns (job_status_query jobName ns)"
      by (simp add: undo_free_def rollout_undo_def job_status_query_def)
    with assms obtain out where "w tr (job_status_query jobName ns) = Returns out"
      unfolding only_health_fails_def by blast
    with assms show "\<exists>out. w tr (job_status_query jobName ns) = Returns out \<and> js_trim out = ''Complete''"
      unfolding only_health_fails_def by blast
  qed
  have steps: "returns_with (\<lambda>r. r) (migration_steps w jobName ns path)" for path
    unfolding migration_steps_def job_status_query_def[symmetric]
    apply (rule returns_and_then[where Q = "\<lambda>_. True"])
     apply (rule good_exec[OF assms], simp add: undo_free_def rollout_undo_def)
    apply (rule returns_and_then[where Q = "\<lambda>_. True"])
     apply (rule good_exec[OF assms], simp add: undo_free_def rollout_undo_def)
    apply (rule returns_and_then[OF status])
    apply simp
    apply (rule returns_and_then[where Q = "\<lambda>_. True"])
     apply (rule good_exec[OF assms], simp add: undo_free_def rollout_undo_def)
    apply (rule returns_succeed, simp)
    done
  show ?thesis
    unfolding runMigrationJob_def
    apply (rule returns_and_then[where Q = "\<lambda>_. True"])
     apply (rule good_exec[OF assms], simp add: undo_free_def rollout_undo_def)
    apply (rule returns_finally_do[OF steps])
    apply (intro returns_if returns_and_then[where Q = "\<lambda>_. True"] good_exec[OF assms] returns_succeed)
      apply (simp_all add: undo_free_def rollout_undo_def)
    done
qed

lemma fails_if:
  "(b \<Longrightarrow> fails_with e x) \<Longrightarrow> (\<not> b \<Longrightarrow> fails_with e y) \<Longrightarrow> fails_with e (if b then x else y)"
  by simp

lemma health_failure_surfaces:
  assumes "only_health_fails w h (svc_name svc) (namespace (kubernetes (sd_container sdc)))"
  shows "fails_with (Error ''Health check verification failed'')
           (service_steps w h svc sdc gitHash dc)"
proof -
  note g = good_exec[OF assms] and ga = good_exec_all[OF assms]
  from assms have nh: "\<forall>s. json_parse_health h s \<noteq> Json_status (Some ''healthy'')"
    unfolding only_health_fails_def by blast
  show ?thesis
    unfolding service_steps_def Let_def buildDockerImage_def
    apply (rule fails_and_then[where Q = "\<lambda>_. True"])
     apply (rule g, simp add: undo_free_def rollout_undo_def)
    apply (rule fails_and_then[where Q = "\<lambda>_. True"])
     apply (rule ga, simp add: undo_free_def rollout_undo_def)
    apply (rule fails_and_then[where Q = "\<lambda>_. True"])
     apply (rule good_docker_login[OF assms])
    apply (rule fails_and_then[where Q = "\<lambda>_. True"])
     apply (rule ga, simp add: undo_free_def rollout_undo_def)
    apply (rule fails_and_then[OF good_migration[OF assms]])
    apply (rule fails_if)
     apply simp
    apply (rule fails_and_then[where Q = "\<lambda>_. True"])
     apply (rule ga, simp add: undo_free_def rollout_undo_def)
    apply (rule fails_and_then[OF returns_verifyHealth_false[OF nh]])
    apply (rule fails_if)
     apply (rule fails_throw)
    apply simp
    done
qed

lemma count_undo_once:
  "list_all (undo_free n ns) new \<Longrightarrow> count_list (new @ [rollout_undo n ns]) (rollout_undo n ns) = 1"
  by (induction new) (auto simp: undo_free_def)

lemma steps_failure_rolls_back:
  assumes "service_steps w h svc sdc gitHash dc tr = (Inl e, tr1)"
  shows "ServiceDeploymentService_deploy w h svc sdc gitHash False dc tr =
           (Inl e, tr1 @ [rollout_undo (svc_name svc) (namespace (kubernetes (sd_container sdc)))])"
  using assms
  by (auto simp: ServiceDeploymentService_deploy_def try_catch_def attempt_rollback_def
            and_then_def exec_def succeed_def throw_def split: outcome.splits)

text \<open>
  Claim C2.  In the managed-runtime strategy, whenever a step of the \<open>try\<close> block of a
  deployment that is not a dry run fails, the deployment calls \<open>kubectl rollout undo\<close> and
  throws the error of that step.  Conversely, whenever the deployment
  fails, the error it throws is the error of the failed step of the \<open>try\<close> block, and the
  calls it made are those of the steps, none of which is the rollback, followed by exactly
  one \<open>kubectl rollout undo\<close>; the outcome of that rollback does not matter.  In
  particular, when nothing fails but the health check, whose polling exhausts its budget,
  the error thrown is \<open>Health check verification failed\<close> and the rollback is called
  exactly once, whether it succeeds or fails.
\<close>

theorem rollback_once_original_error:
  "(service_steps w h svc sdc gitHash dc tr = (Inl e, tr1) \<longrightarrow>
      ServiceDeploymentService_deploy w h svc sdc gitHash False dc tr =
        (Inl e, tr1 @ [rollout_undo (svc_name svc) (namespace (kubernetes (sd_container sdc)))]))
   \<and> (ServiceDeploymentService_deploy w h svc sdc gitHash False dc tr = (Inl e, tr') \<longrightarrow>
      (\<exists>new. service_steps w h svc sdc gitHash dc tr = (Inl e, tr @ new) \<and>
             tr' = tr @ new @
                   [rollout_undo (svc_name svc) (namespace (kubernetes (sd_container sdc)))] \<and>
             count_list
               (new @ [rollout_undo (svc_name svc) (namespace (kubernetes (sd_container sdc)))])
               (rollout_undo (svc_name svc) (namespace (kubernetes (sd_container sdc)))) = 1))
   \<and> (only_health_fails w h (svc_name svc) (namespace (kubernetes (sd_container sdc))) \<longrightarrow>
      (\<exists>new. ServiceDeploymentService_deploy w h svc sdc gitHash False dc tr =
               (Inl (Error ''Health check verification failed''),
                tr @ new @
                [rollout_undo (svc_name svc) (namespace (kubernetes (sd_container sdc)))]) \<and>
             count_list
               (new @ [rollout_undo (svc_name svc) (namespace (kubernetes (sd_container sdc)))])
               (rollout_undo (svc_name svc) (namespace (kubernetes (sd_container sdc)))) = 1))"
proof (intro conjI impI)
  assume "service_steps w h svc sdc gitHash dc tr = (Inl e, tr1)"
  then show "ServiceDeploymentService_deploy w h svc sdc gitHash False dc tr =
        (Inl e, tr1 @ [rollout_undo (svc_name svc) (namespace (kubernetes (sd_container sdc)))])"
    by (rule steps_failure_rolls_back)
next
  assume "ServiceDeploymentService_deploy w h svc sdc gitHash False dc tr = (Inl e, tr')"
  from deploy_failure_shape[OF this] show
    "\<exists>new. service_steps w h svc sdc gitHash dc tr = (Inl e, tr @ new) \<and>
             tr' = tr @ new @
                   [rollout_undo (svc_name svc) (namespace (kubernetes (sd_container sdc)))] \<and>
             count_list
               (new @ [rollout_undo (svc_name svc) (namespace (kubernetes (sd_container sdc)))])
               (rollout_undo (svc_name svc) (namespace (kubernetes (sd_container sdc)))) = 1"
    using count_undo_once by blast
next
  assume ohf: "only_health_fails w h (svc_name svc) (namespace (kubernetes (sd_container sdc)))"
  from health_failure_surfaces[OF ohf, of gitHash dc] obtain tr1 where
    st: "service_steps w h svc sdc gitHash dc tr =
           (Inl (Error ''Health check verification failed''), tr1)"
    unfolding fails_with_def by blast
  note d = steps_failure_rolls_back[OF st]
  from deploy_failure_shape[OF d] show
    "\<exists>new. ServiceDeploymentService_deploy w h svc sdc gitHash False dc tr =
               (Inl (Error ''Health check verification failed''),
                tr @ new @
                [rollout_undo (svc_name svc) (namespace (kubernetes (sd_container sdc)))]) \<and>
             count_list
               (new @ [rollout_undo (svc_name svc) (namespace (kubernetes (sd_container sdc)))])
               (rollout_undo (svc_name svc) (namespace (kubernetes (sd_container sdc)))) = 1"
    using count_undo_once d by auto
qed

lemma rollback_fails_only_health:
  "only_health_fails rollback_fails example_host ''email'' ''prod''"
  by (simp add: only_health_fails_def rollback_fails_def undo_free_def example_host_def
        js_trim_def is_space_def job_status_query_def rollout_undo_def)

theorem rollback_once_original_error_witness:
  "fst (ServiceDeploymentService_deploy rollback_fails example_host example_service
          example_service_deployment ''abc1234'' False None []) =
     Inl (Error ''Health check verification failed'')
   \<and> count_list
        (snd (ServiceDeploymentService_deploy rollback_fails example_host example_service
                example_service_deployment ''abc1234'' False None []))
        (rollout_undo ''email'' ''prod'') = 1
   \<and> fst (service_steps rollback_fails example_host example_service
            example_service_deployment ''abc1234'' None []) =
     Inl (Error ''Health check verification failed'')
   \<and> snd (ServiceDeploymentService_deploy rollback_fails example_host example_service
            example_service_deployment ''abc1234'' False None []) =
     snd (service_steps rollback_fails example_host example_service
            example_service_deployment ''abc1234'' None []) @ [rollout_undo ''email'' ''prod'']"
proof -
  have n: "svc_name example_service = ''email''"
    "namespace (kubernetes (sd_container example_service_deployment)) = ''prod''"
    by (simp_all add: example_service_def example_service_deployment_def)
  note t = rollback_once_original_error [where w = rollback_fails and h = example_host
      and svc = example_service and sdc = example_service_deployment
      and gitHash = "''abc1234''" and dc = None and tr = "[]", unfolded n]
  from t[where e = "Error ''x''" and tr' = "[]" and ?tr1.0 = "[]", THEN conjunct2, THEN conjunct2,
         rule_format, OF rollback_fails_only_health]
  obtain new where d: "ServiceDeploymentService_deploy rollback_fails example_host example_service
          example_service_deployment ''abc1234'' False None [] =
      (Inl (Error ''Health check verification failed''), [] @ new @ [rollout_undo ''email'' ''prod''])"
    and c: "count_list (new @ [rollout_undo ''email'' ''prod'']) (rollout_undo ''email'' ''prod'') = 1"
    by blast
  from t[where e = "Error ''Health check verification failed''"
      and tr' = "[] @ new @ [rollout_undo ''email'' ''prod'']" and ?tr1.0 = "[]",
      THEN conjunct2, THEN conjunct1, rule_format, OF d]
  have s: "service_steps rollback_fails example_host example_service
            example_service_deployment ''abc1234'' None [] =
     (Inl (Error ''Health check verification failed''), new)" by auto
  from t[where e = "Error ''Health check verification failed''"
      and tr' = "[]" and ?tr1.0 = new, THEN conjunct1, rule_format, OF s]
  have "snd (ServiceDeploymentService_deploy rollback_fails example_host example_service
            example_service_deployment ''abc1234'' False None []) =
     snd (service_steps rollback_fails example_host example_service
            example_service_deployment ''abc1234'' None []) @ [rollout_undo ''email'' ''prod'']"
    using s by simp
  with d c s show ?thesis by simp
qed

lemma verifyHealth_sleeps:
  "extends_with ten_second_sleep (verifyHealth w h n ns)"
  unfolding verifyHealth_def
  by (rule extends_verify_loop)
     (simp_all add: ten_second_sleep_def retryDelay_def get_pod_call_def health_call_def)

text \<open>
  Claim C8.  Health-check polling is bounded.  From every trace and in every world
  \<open>verifyHealth\<close> returns: it makes at most 30 attempts (at most 90 calls), every timer it
  starts lasts 10 seconds, and the timers add up to at most 300 seconds.  When it returns
  \<open>false\<close> it has made exactly 30 attempts and slept 300 seconds.  When nothing fails but
  the health check, the deployment throws \<open>Health check verification failed\<close>.
\<close>

theorem health_polling_bounded:
  "(\<exists>r new. verifyHealth w h n ns tr = (Inr r, tr @ new) \<and>
       count_list new (get_pod_call n ns) \<le> 30 \<and>
       length new \<le> 90 \<and>
       list_all ten_second_sleep new \<and>
       sleep_total new \<le> 300000 \<and>
       (\<not> r \<longrightarrow> count_list new (get_pod_call n ns) = 30 \<and> sleep_total new = 300000))
   \<and> (only_health_fails w h (svc_name svc) (namespace (kubernetes (sd_container sdc))) \<longrightarrow>
        fst (ServiceDeploymentService_deploy w h svc sdc gitHash False dc tr) =
          Inl (Error ''Health check verification failed''))"
proof (intro conjI impI)
  from verify_loop_bounded[of w h n ns 0 tr] obtain r new where b:
    "verify_loop w h n ns 0 tr = (Inr r, tr @ new)"
    "count_list new (get_pod_call n ns) \<le> maxRetries - 0"
    "sleep_total new \<le> (maxRetries - 0) * retryDelay"
    "length new \<le> 3 * (maxRetries - 0)"
    "\<not> r \<longrightarrow> count_list new (get_pod_call n ns) = maxRetries - 0 \<and>
                 sleep_total new = (maxRetries - 0) * retryDelay"
    by blast
  from extends_withD[OF verifyHealth_sleeps, of w h n ns tr "Inr r" "tr @ new"] b(1)
  have "list_all ten_second_sleep new" by (simp add: verifyHealth_def)
  with b show "\<exists>r new. verifyHealth w h n ns tr = (Inr r, tr @ new) \<and>
       count_list new (get_pod_call n ns) \<le> 30 \<and>
       length new \<le> 90 \<and>
       list_all ten_second_sleep new \<and>
       sleep_total new \<le> 300000 \<and>
       (\<not> r \<longrightarrow> count_list new (get_pod_call n ns) = 30 \<and> sleep_total new = 300000)"
    by (intro exI[of _ r] exI[of _ new]) (simp add: verifyHealth_def maxRetries_def retryDelay_def)
next
  assume ohf: "only_health_fails w h (svc_name svc) (namespace (kubernetes (sd_container sdc)))"
  from health_failure_surfaces[OF ohf, of gitHash dc] obtain tr1 where
    st: "service_steps w h svc sdc gitHash dc tr =
           (Inl (Error ''Health check verification failed''), tr1)"
    unfolding fails_with_def by blast
  then show "fst (ServiceDeploymentService_deploy w h svc sdc gitHash False dc tr) =
          Inl (Error ''Health check verification failed'')"
    by (auto simp: ServiceDeploymentService_deploy_def try_catch_def attempt_rollback_def
            and_then_def exec_def succeed_def throw_def split: outcome.splits)
qed

theorem health_polling_bounded_witness:
  "fst (verifyHealth rollback_fails example_host ''email'' ''prod'' []) = Inr False
   \<and> count_list (snd (verifyHealth rollback_fails example_host ''email'' ''prod'' []))
        (get_pod_call ''email'' ''prod'') = 30
   \<and> sleep_total (snd (verifyHealth rollback_fails example_host ''email'' ''prod'' [])) = 300000
   \<and> fst (ServiceDeploymentService_deploy rollback_fails example_host example_service
          example_service_deployment ''abc1234'' False None []) =
     Inl (Error ''Health check verification failed'')"
proof -
  have n: "svc_name example_service = ''email''"
    "namespace (kubernetes (sd_container example_service_deployment)) = ''prod''"
    by (simp_all add: example_service_def example_service_deployment_def)
  note t = health_polling_bounded [where w = rollback_fails and h = example_host
      and svc = example_service and sdc = example_service_deployment
      and gitHash = "''abc1234''" and dc = None and tr = "[]" and n = "''email''"
      and ns = "''prod''", unfolded n]
  from t[THEN conjunct1] obtain r new where b:
    "verifyHealth rollback_fails example_host ''email'' ''prod'' [] = (Inr r, [] @ new)"
    "\<not> r \<longrightarrow> count_list new (get_pod_call ''email'' ''prod'') = 30 \<and> sleep_total new = 300000"
    by blast
  have "\<forall>s. json_parse_health example_host s \<noteq> Json_status (Some ''healthy'')"
    by (simp add: example_host_def)
  from verify_loop_never_healthy[OF this, of rollback_fails "''email''" "''prod''" 0 "[]"] b(1)
  have "\<not> r" by (simp add: verifyHealth_def)
  with b t[THEN conjunct2, rule_format, OF rollback_fails_only_health] show ?thesis by simp
qed

subsection \<open>The strategy dispatch\<close>

text \<open>
  Claim C10.  In the multi-type dispatch a \<open>lambda-zip\<close> target takes the pod-restart
  path exactly when its environment is \<open>staging\<close>.  In every other environment the
  dispatch returns the result with \<open>skipped = true\<close> and makes no call, which is also what
  it does for a type it does not know.
\<close>

theorem lambda_zip_restarts_only_in_staging:
  "(dtype (dc_deployment dc) = ''lambda-zip'' \<and> environment dc = ''staging'' \<longrightarrow>
      DeploymentService_deploy w h svc dc dryRun gitHash fc = deployToKubernetes w svc dryRun)
   \<and> (dtype (dc_deployment dc) = ''lambda-zip'' \<and> environment dc \<noteq> ''staging'' \<longrightarrow>
      DeploymentService_deploy w h svc dc dryRun gitHash fc tr = (Inr skipped_result, tr))
   \<and> (dtype (dc_deployment dc) \<notin> set [''web'', ''container'', ''npm'', ''dockerhub'', ''lambda-zip'']
        \<longrightarrow>
      DeploymentService_deploy w h svc dc dryRun gitHash fc tr = (Inr skipped_result, tr))
   \<and> res_skipped skipped_result = Some True"
  by (simp add: DeploymentService_deploy_def Let_def succeed_def skipped_result_def)

lemmas restart_eval =
  DeploymentService_deploy_def Let_def succeed_def skipped_result_def no_result_def
  deployToKubernetes_def restart_steps_def try_catch_def and_then_def exec_def pause_def
  all_succeed_def example_config_def example_deployment_def example_service_def js_trim_def

theorem lambda_zip_restarts_only_in_staging_witness:
  "DeploymentService_deploy all_succeed example_host example_service example_config False None
     None [] = (Inr skipped_result, [])
   \<and> DeploymentService_deploy all_succeed example_host example_service
       (example_config \<lparr> environment := ''development'' \<rparr>) False None None [] =
     (Inr skipped_result, [])
   \<and> DeploymentService_deploy all_succeed example_host example_service
       (example_config \<lparr> dc_deployment := example_deployment \<lparr> dtype := ''helm'' \<rparr> \<rparr>)
       False None None [] = (Inr skipped_result, [])
   \<and> snd (DeploymentService_deploy all_succeed example_host example_service
            (example_config \<lparr> environment := ''staging'' \<rparr>) False None None []) =
     [Exec Cluster_cli
        ''kubectl get pods -n novaskyn -l app=email-lambda-rie --no-headers 2>/dev/null | wc -l'',
      Exec Cluster_cli ''kubectl delete pods -n novaskyn -l app=email-lambda-rie'',
      Sleep 3000,
      Exec Cluster_cli ''kubectl get pods -n novaskyn -l app=email-lambda-rie --no-headers'']"
  using lambda_zip_restarts_only_in_staging [where dc = example_config and w = all_succeed
      and h = example_host and svc = example_service and dryRun = False and gitHash = None
      and fc = None and tr = "[]"]
    lambda_zip_restarts_only_in_staging [where dc = "example_config \<lparr> environment := ''development'' \<rparr>"
      and w = all_succeed
      and h = example_host and svc = example_service and dryRun = False and gitHash = None
      and fc = None and tr = "[]"]
    lambda_zip_restarts_only_in_staging [where
      dc = "example_config \<lparr> dc_deployment := example_deployment \<lparr> dtype := ''helm'' \<rparr> \<rparr>"
      and w = all_succeed
      and h = example_host and svc = example_service and dryRun = False and gitHash = None
      and fc = None and tr = "[]"]
    lambda_zip_restarts_only_in_staging [where dc = "example_config \<lparr> environment := ''staging'' \<rparr>"
      and w = all_succeed
      and h = example_host and svc = example_service and dryRun = False and gitHash = None
      and fc = None and tr = "[]"]
  by (simp add: restart_eval)













lemma returns_only_try_catch:
  assumes "returns_only P m" and "\<And>e. returns_only P (handler e)"
  shows "returns_only P (try_catch m handler)"
  using assms unfolding returns_only_def try_catch_def
  by (auto split: prod.splits sum.splits)


subsubsection \<open>Dry runs of the strategies\<close>




































subsection \<open>The NodePort of an in-cluster registry\<close>



























lemma nodeport_query_failure_is_fatal:
  "GitOpsContainerDeploymentService_deploy query_fails example_host example_service
     example_container ''abc'' False None None None [] =
   (Inl (Error (''GitOps container deployment failed: '' @
                ''services docker-registry-nodeport not found'')),
    [Exec Container_engine ''docker build -f Dockerfile -t email:abc-1700000000000 .'',
     Exec Container_engine
       (''docker tag email:abc-1700000000000 '' @
        ''docker-registry.container-registry.svc.cluster.local:5000/email:abc-1700000000000''),
     Exec Container_engine
       (''docker tag email:abc-1700000000000 '' @
        ''docker-registry.container-registry.svc.cluster.local:5000/email:latest''),
     nodeport_query ''container-registry''])"
  by (simp add: GitOpsContainerDeploymentService_deploy_def gitops_steps_def Let_def
        run_phase_def phase_of_def dockerfile_of_def gitops_push_def gitops_nodePort_def
        truthy_num_def and_then_def try_catch_def succeed_def throw_def exec_def
        example_container_def in_cluster_registry_def example_host_def example_service_def
        query_fails_def show_nat.simps digit_char_def nodeport_query_def)

subsection \<open>The build phase of the orchestrator\<close>

lemma notify_trace: "notify w dc ev tr = (Inr (), tr @ notified dc ev)"
  by (auto simp: notify_def notified_def sendNotification_def event_enabled_def succeed_def
        try_catch_def and_then_def exec_def truthy_str_def split: option.splits outcome.splits)

lemma notified_not_builder: "list_all (\<lambda>c. \<not> is_builder_call c) (notified dc ev)"
  by (simp add: notified_def is_builder_call_def split: option.splits)

lemma build_phase_builds:
  assumes "\<not> skipBuild opts" "fc_build config \<noteq> None"
          "dtype (dc_deployment dc) \<notin> set skipBuildTypes"
  shows "\<exists>after r. build_phase w config dc opts tr =
           (r, tr @ notified dc BuildStart @ [Invoke_builder (opt_dryRun opts)] @ after)"
proof (cases "w (tr @ notified dc BuildStart) (Invoke_builder (opt_dryRun opts))")
  case (Fails m)
  with assms show ?thesis
    by (simp add: build_phase_def and_then_def notify_trace exec_def)
next
  case (Returns out)
  with assms show ?thesis
    by (simp add: build_phase_def and_then_def notify_trace exec_def succeed_def)
qed

lemma build_phase_skips:
  assumes "skipBuild opts \<or> fc_build config = None \<or> dtype (dc_deployment dc) \<in> set skipBuildTypes"
  shows "build_phase w config dc opts tr =
           (Inr None, tr @ (if skipBuild opts then notified dc BuildSkipped else []))"
  using assms
  by (auto simp: build_phase_def and_then_def notify_trace succeed_def)

lemma upload_phase_uploads:
  assumes "\<not> skipUpload opts" "dtype (dc_deployment dc) \<notin> set skipUploadTypes"
  shows "\<exists>after r. upload_phase w dc opts tr =
           (r, tr @ notified dc UploadStart @ [Invoke_publisher (opt_dryRun opts)] @ after)"
proof (cases "w (tr @ notified dc UploadStart) (Invoke_publisher (opt_dryRun opts))")
  case (Fails m)
  with assms show ?thesis
    by (simp add: upload_phase_def and_then_def notify_trace exec_def)
next
  case (Returns out)
  with assms show ?thesis
    by (simp add: upload_phase_def and_then_def notify_trace exec_def succeed_def)
qed

text \<open>
  Claim C5, as the code has it.  For a target whose type is one of the types of the
  configuration schema, the build phase invokes the Builder exactly when \<open>skipBuild\<close> is
  not set, the configuration has a build section, and the type is none of \<open>web\<close>,
  \<open>container\<close>, \<open>npm\<close>, \<open>dockerhub\<close>.  With \<open>skipBuild\<close> set the phase makes no call but the
  \<open>buildSkipped\<close> notification, and for a \<open>lambda-zip\<close> target the upload phase, unless
  \<open>skipUpload\<close> is set, still invokes the Publisher.
\<close>

theorem builder_skipped_exactly_when:
  assumes "dtype (dc_deployment dc) \<in> set schema_types"
  shows "(\<exists>new. snd (build_phase w config dc opts tr) = tr @ new \<and>
            ((\<exists>c \<in> set new. is_builder_call c) \<longleftrightarrow>
             (\<not> skipBuild opts \<and> fc_build config \<noteq> None \<and>
              dtype (dc_deployment dc) \<notin> set [''web'', ''container'', ''npm'', ''dockerhub''])))
       \<and> (skipBuild opts \<longrightarrow>
            build_phase w config dc opts tr = (Inr None, tr @ notified dc BuildSkipped))
       \<and> (skipBuild opts \<and> \<not> skipUpload opts \<and> dtype (dc_deployment dc) = ''lambda-zip'' \<longrightarrow>
            (\<exists>before after r.
               and_then (build_phase w config dc opts) (\<lambda>built. upload_phase w dc opts) tr =
                 (r, tr @ notified dc BuildSkipped @ before @
                     [Invoke_publisher (opt_dryRun opts)] @ after)))"
proof (intro conjI impI)
  show "\<exists>new. snd (build_phase w config dc opts tr) = tr @ new \<and>
            ((\<exists>c \<in> set new. is_builder_call c) \<longleftrightarrow>
             (\<not> skipBuild opts \<and> fc_build config \<noteq> None \<and>
              dtype (dc_deployment dc) \<notin> set [''web'', ''container'', ''npm'', ''dockerhub'']))"
  proof (cases "\<not> skipBuild opts \<and> fc_build config \<noteq> None \<and>
              dtype (dc_deployment dc) \<notin> set skipBuildTypes")
    case True
    with build_phase_builds[of opts config dc w tr] obtain after r where
      "build_phase w config dc opts tr =
           (r, tr @ notified dc BuildStart @ [Invoke_builder (opt_dryRun opts)] @ after)" by blast
    with True show ?thesis
      by (intro exI[of _ "notified dc BuildStart @ [Invoke_builder (opt_dryRun opts)] @ after"])
         (auto simp: is_builder_call_def skipBuildTypes_def)
  next
    case False
    then have "skipBuild opts \<or> fc_build config = None \<or> dtype (dc_deployment dc) \<in> set skipBuildTypes"
      by blast
    from build_phase_skips[OF this, of w tr] False notified_not_builder[of dc BuildSkipped]
    show ?thesis
      by (intro exI[of _ "if skipBuild opts then notified dc BuildSkipped else []"])
         (auto simp: skipBuildTypes_def list_all_iff)
  qed
next
  assume "skipBuild opts"
  then show "build_phase w config dc opts tr = (Inr None, tr @ notified dc BuildSkipped)"
    using build_phase_skips[of opts config dc w tr] by simp
next
  assume a: "skipBuild opts \<and> \<not> skipUpload opts \<and> dtype (dc_deployment dc) = ''lambda-zip''"
  then have b: "build_phase w config dc opts tr = (Inr None, tr @ notified dc BuildSkipped)"
    using build_phase_skips[of opts config dc w tr] by simp
  from a have "dtype (dc_deployment dc) \<notin> set skipUploadTypes" by (simp add: skipUploadTypes_def)
  with a upload_phase_uploads[of opts dc w "tr @ notified dc BuildSkipped"] obtain after r where
    "upload_phase w dc opts (tr @ notified dc BuildSkipped) =
           (r, (tr @ notified dc BuildSkipped) @ notified dc UploadStart @
               [Invoke_publisher (opt_dryRun opts)] @ after)" by blast
  with b show "\<exists>before after r.
               and_then (build_phase w config dc opts) (\<lambda>built. upload_phase w dc opts) tr =
                 (r, tr @ notified dc BuildSkipped @ before @
                     [Invoke_publisher (opt_dryRun opts)] @ after)"
    by (intro exI[of _ "notified dc UploadStart"] exI[of _ after] exI[of _ r])
       (simp add: and_then_def)
qed

lemmas phase_eval =
  build_phase_def upload_phase_def notify_def sendNotification_def event_enabled_def
  not_false_def truthy_str_def str_or_def and_then_def try_catch_def succeed_def exec_def
  skipBuildTypes_def skipUploadTypes_def all_succeed_def example_full_config_def
  example_config_def example_deployment_def example_options_def example_notifications_def

theorem builder_skipped_without_build_config_counterexample:
  "\<not> skipBuild example_options
   \<and> dtype (dc_deployment example_config) = ''lambda-zip''
   \<and> build_phase all_succeed example_full_config example_config example_options [] =
       (Inr None, [])"
  by (simp add: phase_eval)

theorem builder_skipped_exactly_when_witness:
  "build_phase all_succeed example_full_config
     (example_config \<lparr> notifications := Some example_notifications \<rparr>)
     (example_options \<lparr> skipBuild := True \<rparr>) [] =
     (Inr None, [Post_webhook ''https://discord.example/hook'' BuildSkipped])
   \<and> and_then
       (build_phase all_succeed example_full_config
          (example_config \<lparr> notifications := Some example_notifications \<rparr>)
          (example_options \<lparr> skipBuild := True \<rparr>))
       (\<lambda>built. upload_phase all_succeed
          (example_config \<lparr> notifications := Some example_notifications \<rparr>)
          (example_options \<lparr> skipBuild := True \<rparr>)) [] =
     (Inr (),
      [Post_webhook ''https://discord.example/hook'' BuildSkipped,
       Post_webhook ''https://discord.example/hook'' UploadStart,
       Invoke_publisher False,
       Post_webhook ''https://discord.example/hook'' UploadSuccess])"
  using builder_skipped_exactly_when [where w = all_succeed and config = example_full_config
      and dc = "example_config \<lparr> notifications := Some example_notifications \<rparr>"
      and opts = "example_options \<lparr> skipBuild := True \<rparr>" and tr = "[]"]
  by (simp add: phase_eval schema_types_def notified_def)

end
